theory Spec2Isabelle
  imports Complex_Main "HOL-Library.Product_Lexorder" "HOL-Library.Multiset"
begin

section \<open>Python values, dictionaries and exceptions\<close>

text \<open>
  The service of \<^verbatim>\<open>app/main.py\<close> keeps every task as a Python \<^verbatim>\<open>dict\<close> in the
  module-level \<^verbatim>\<open>tasks_db\<close>. The dictionaries are dynamically typed, and the code reads them
  with \<^verbatim>\<open>d[k]\<close>, \<^verbatim>\<open>d.get(k)\<close> and \<^verbatim>\<open>d.get(k, default)\<close>, which differ exactly on whether a
  key is missing or present with the value \<^verbatim>\<open>None\<close>. The embedding therefore keeps both:
  a dictionary is a partial map from key to value, and \<^verbatim>\<open>None\<close> is a value.

  A \<^verbatim>\<open>float\<close> is a real number (the code copies and tests hours, it never computes with
  them). A \<^verbatim>\<open>datetime\<close> is an integer count of microseconds, so that
  \<^verbatim>\<open>timedelta(days=1)\<close> is exact, and it is either naive (no time zone, as every value of
  \<^verbatim>\<open>datetime.now()\<close> is) or timezone-aware (as a request body can supply, with a
  \<^verbatim>\<open>Z\<close> or an offset). Python refuses to order a naive and an aware datetime: the
  comparison raises \<^verbatim>\<open>TypeError\<close>.
\<close>

datatype TaskStatus = PENDING | IN_PROGRESS | COMPLETED | CANCELLED

datatype TaskPriority = LOW | MEDIUM | HIGH | URGENT

datatype pyval =
    PNone
  | PStr string
  | PFloat real
  | PDatetime int
  | PAwareDatetime int
  | PBool bool
  | PStatus TaskStatus
  | PPriority TaskPriority

text \<open>The keys of a task dictionary: the eleven string literals the code uses, which are
  also the field names of the models.\<close>

datatype key =
    k_title | k_description | k_priority | k_estimated_hours | k_due_date | k_id | k_status
  | k_created_at | k_updated_at | k_actual_hours | k_is_overdue

type_synonym pydict = "key \<rightharpoonup> pyval"

datatype py_error =
    HTTPException nat string
  | ValidationError "(string \<times> string) list"
  | KeyError key
  | TypeError

fun status_value :: "TaskStatus \<Rightarrow> string" where
  "status_value PENDING = ''pending''"
| "status_value IN_PROGRESS = ''in_progress''"
| "status_value COMPLETED = ''completed''"
| "status_value CANCELLED = ''cancelled''"

fun priority_value :: "TaskPriority \<Rightarrow> string" where
  "priority_value LOW = ''low''"
| "priority_value MEDIUM = ''medium''"
| "priority_value HIGH = ''high''"
| "priority_value URGENT = ''urgent''"

text \<open>\<^verbatim>\<open>bool(v)\<close>: what \<^verbatim>\<open>if v\<close>, \<^verbatim>\<open>not v\<close> and \<^verbatim>\<open>v and ...\<close> test. The members of
  both enumerations are non-empty strings, a \<^verbatim>\<open>datetime\<close> is always true, the float
  \<^verbatim>\<open>0.0\<close> is false.\<close>

fun truthy :: "pyval \<Rightarrow> bool" where
  "truthy PNone = False"
| "truthy (PStr s) = (s \<noteq> [])"
| "truthy (PFloat r) = (r \<noteq> 0)"
| "truthy (PDatetime d) = True"
| "truthy (PAwareDatetime d) = True"
| "truthy (PBool b) = b"
| "truthy (PStatus s) = True"
| "truthy (PPriority p) = True"

text \<open>\<^verbatim>\<open>v == TaskStatus.X\<close> and \<^verbatim>\<open>v == TaskPriority.X\<close>: both enumerations derive from
  \<^verbatim>\<open>str\<close>, so a member also equals the plain string of its value.\<close>

fun is_status :: "pyval \<Rightarrow> TaskStatus \<Rightarrow> bool" where
  "is_status (PStatus s) x = (s = x)"
| "is_status (PStr s) x = (s = status_value x)"
| "is_status v x = False"

fun is_priority :: "pyval \<Rightarrow> TaskPriority \<Rightarrow> bool" where
  "is_priority (PPriority p) x = (p = x)"
| "is_priority (PStr s) x = (s = priority_value x)"
| "is_priority v x = False"

definition dict_get :: "pydict \<Rightarrow> key \<Rightarrow> pyval" where
  \<comment> \<open>\<^verbatim>\<open>d.get(k)\<close>\<close>
  "dict_get d k = (case d k of None \<Rightarrow> PNone | Some v \<Rightarrow> v)"

definition dict_get_default :: "pydict \<Rightarrow> key \<Rightarrow> pyval \<Rightarrow> pyval" where
  \<comment> \<open>\<^verbatim>\<open>d.get(k, default)\<close>: the default is returned for a missing key only\<close>
  "dict_get_default d k dflt = (case d k of None \<Rightarrow> dflt | Some v \<Rightarrow> v)"

definition dict_index :: "pydict \<Rightarrow> key \<Rightarrow> py_error + pyval" where
  \<comment> \<open>\<^verbatim>\<open>d[k]\<close>\<close>
  "dict_index d k = (case d k of None \<Rightarrow> Inl (KeyError k) | Some v \<Rightarrow> Inr v)"

definition timedelta_days :: "int \<Rightarrow> int" where
  "timedelta_days n = n * 86400000000"

text \<open>Decimal rendering of a count inside an f-string.\<close>

function str_nat :: "nat \<Rightarrow> string" where
  "str_nat n =
     (if n < 10 then [''0123456789'' ! n]
      else str_nat (n div 10) @ [''0123456789'' ! (n mod 10)])"
  by pat_completeness auto
termination
  by (relation "measure (\<lambda>n. n)") auto

declare str_nat.simps [simp del]

section \<open>The pydantic models\<close>

text \<open>
  Field checks, each returning the value or the tag of the constraint that failed.
  A model field is required, optional (\<^verbatim>\<open>Optional[T] = None\<close>) or has a default.
\<close>

definition str_length_check :: "nat \<Rightarrow> nat option \<Rightarrow> string \<Rightarrow> string + string" where
  "str_length_check lo hi s =
     (if length s < lo then Inl ''min_length''
      else if (case hi of None \<Rightarrow> False | Some h \<Rightarrow> h < length s) then Inl ''max_length''
      else Inr s)"

fun field_str :: "nat \<Rightarrow> nat option \<Rightarrow> pyval \<Rightarrow> string + string" where
  "field_str lo hi (PStr s) = str_length_check lo hi s"
| "field_str lo hi PNone = Inl ''none''"
| "field_str lo hi v = Inl ''type''"

fun field_float :: "real option \<Rightarrow> real option \<Rightarrow> pyval \<Rightarrow> string + real" where
  "field_float lo hi (PFloat r) =
     (if (case lo of None \<Rightarrow> False | Some l \<Rightarrow> r < l) then Inl ''ge''
      else if (case hi of None \<Rightarrow> False | Some h \<Rightarrow> h < r) then Inl ''le''
      else Inr r)"
| "field_float lo hi PNone = Inl ''none''"
| "field_float lo hi v = Inl ''type''"

text \<open>A \<^verbatim>\<open>datetime\<close> field of a request model takes a naive or an aware value.\<close>

datatype datetime = Naive int | Aware int

fun field_datetime_input :: "pyval \<Rightarrow> string + datetime" where
  "field_datetime_input (PDatetime d) = Inr (Naive d)"
| "field_datetime_input (PAwareDatetime d) = Inr (Aware d)"
| "field_datetime_input PNone = Inl ''none''"
| "field_datetime_input v = Inl ''type''"

text \<open>The \<^verbatim>\<open>datetime\<close> fields of the response model \<^verbatim>\<open>Task\<close> are read from stored
  dictionaries only. Every datetime the code stores is naive: \<^verbatim>\<open>created_at\<close> and
  \<^verbatim>\<open>updated_at\<close> are values of \<^verbatim>\<open>datetime.now()\<close>, and a due date is such a value plus a
  day or has passed a validator, which no aware value does (see below; that every
  operation keeps the store free of aware datetimes is proved among the properties). The
  record \<^verbatim>\<open>Task\<close> therefore holds naive datetimes, and a dictionary with an aware one is
  outside what \<^verbatim>\<open>Task_init\<close> accepts.\<close>

fun field_datetime :: "pyval \<Rightarrow> string + int" where
  "field_datetime (PDatetime d) = Inr d"
| "field_datetime (PAwareDatetime d) = Inl ''aware''"
| "field_datetime PNone = Inl ''none''"
| "field_datetime v = Inl ''type''"

fun field_bool :: "pyval \<Rightarrow> string + bool" where
  "field_bool (PBool b) = Inr b"
| "field_bool PNone = Inl ''none''"
| "field_bool v = Inl ''type''"

fun field_status :: "pyval \<Rightarrow> string + TaskStatus" where
  "field_status (PStatus s) = Inr s"
| "field_status (PStr s) =
     (if s = ''pending'' then Inr PENDING
      else if s = ''in_progress'' then Inr IN_PROGRESS
      else if s = ''completed'' then Inr COMPLETED
      else if s = ''cancelled'' then Inr CANCELLED
      else Inl ''enum'')"
| "field_status PNone = Inl ''none''"
| "field_status v = Inl ''type''"

fun field_priority :: "pyval \<Rightarrow> string + TaskPriority" where
  "field_priority (PPriority p) = Inr p"
| "field_priority (PStr s) =
     (if s = ''low'' then Inr LOW
      else if s = ''medium'' then Inr MEDIUM
      else if s = ''high'' then Inr HIGH
      else if s = ''urgent'' then Inr URGENT
      else Inl ''enum'')"
| "field_priority PNone = Inl ''none''"
| "field_priority v = Inl ''type''"

definition required :: "(pyval \<Rightarrow> string + 'a) \<Rightarrow> pyval option \<Rightarrow> string + 'a" where
  "required chk x = (case x of None \<Rightarrow> Inl ''required'' | Some v \<Rightarrow> chk v)"

definition optional :: "(pyval \<Rightarrow> string + 'a) \<Rightarrow> pyval option \<Rightarrow> string + 'a option" where
  "optional chk x =
     (case x of None \<Rightarrow> Inr None
      | Some PNone \<Rightarrow> Inr None
      | Some v \<Rightarrow> (case chk v of Inl e \<Rightarrow> Inl e | Inr a \<Rightarrow> Inr (Some a)))"

definition defaulted :: "'a \<Rightarrow> (pyval \<Rightarrow> string + 'a) \<Rightarrow> pyval option \<Rightarrow> string + 'a" where
  "defaulted dflt chk x = (case x of None \<Rightarrow> Inr dflt | Some v \<Rightarrow> chk v)"

definition err :: "string \<Rightarrow> string + 'a \<Rightarrow> (string \<times> string) list" where
  "err loc r = (case r of Inl e \<Rightarrow> [(loc, e)] | Inr a \<Rightarrow> [])"

text \<open>The validators \<^verbatim>\<open>TaskCreate.due_date_must_be_future\<close> and
  \<^verbatim>\<open>TaskUpdate.due_date_validation\<close>, both
  \<^verbatim>\<open>if v and v <= datetime.now(): raise ValueError(...); return v\<close>.
  The argument \<open>now\<close> is the clock reading the validator takes, a naive datetime. For an
  aware \<open>v\<close> the comparison raises \<^verbatim>\<open>TypeError\<close>, which the model class collects as the
  error of the field just as it collects the \<^verbatim>\<open>ValueError\<close>. (That is pydantic 1, whose
  interface the code is written against; under pydantic 2 the \<^verbatim>\<open>TypeError\<close> leaves the
  validator uncaught. The request is refused either way, before the handler runs.) A
  value the validator returns is therefore \<^verbatim>\<open>None\<close> or naive, and the result is typed
  so.\<close>

definition due_date_must_be_future :: "int \<Rightarrow> datetime option \<Rightarrow> string + int option" where
  "due_date_must_be_future now v =
     (case v of
        None \<Rightarrow> Inr None
      | Some (Naive d) \<Rightarrow>
          if d \<le> now then Inl ''Due date must be in the future'' else Inr (Some d)
      | Some (Aware d) \<Rightarrow> Inl ''can't compare offset-naive and offset-aware datetimes'')"

definition due_date_validation :: "int \<Rightarrow> datetime option \<Rightarrow> string + int option" where
  "due_date_validation now v =
     (case v of
        None \<Rightarrow> Inr None
      | Some (Naive d) \<Rightarrow>
          if d \<le> now then Inl ''Due date must be in the future'' else Inr (Some d)
      | Some (Aware d) \<Rightarrow> Inl ''can't compare offset-naive and offset-aware datetimes'')"

record TaskBase =
  title :: string
  description :: "string option"
  priority :: TaskPriority
  estimated_hours :: "real option"
  due_date :: "int option"

type_synonym TaskCreate = TaskBase

record Task = TaskBase +
  id :: string
  status :: TaskStatus
  created_at :: int
  updated_at :: int
  actual_hours :: "real option"
  is_overdue :: bool

text \<open>A \<^verbatim>\<open>TaskUpdate\<close> instance: the value of each attribute (an attribute can be assigned
  any value after construction, since \<^verbatim>\<open>validate_assignment\<close> is off) and the set of
  fields that were supplied or assigned, which \<^verbatim>\<open>dict(exclude_unset=True)\<close> consults.\<close>

record TaskUpdate =
  title :: pyval
  description :: pyval
  priority :: pyval
  status :: pyval
  estimated_hours :: pyval
  due_date :: pyval
  actual_hours :: pyval
  fields_set :: "key set"

text \<open>\<^verbatim>\<open>TaskCreate(**payload)\<close>: the payload holds the keyword arguments supplied. Every
  failing field is reported, in field order; the \<^verbatim>\<open>ValueError\<close> of the validator is
  collected like any other field error, and so is the \<^verbatim>\<open>TypeError\<close> of comparing an aware
  due date.\<close>

definition TaskCreate_init :: "int \<Rightarrow> pydict \<Rightarrow> py_error + TaskCreate" where
  "TaskCreate_init now payload =
     (let r_title = required (field_str 1 (Some 100)) (payload k_title);
          r_description = optional (field_str 0 (Some 500)) (payload k_description);
          r_priority = defaulted MEDIUM field_priority (payload k_priority);
          r_estimated = optional (field_float (Some (1 / 10)) (Some 100)) (payload k_estimated_hours);
          r_due = (case optional field_datetime_input (payload k_due_date) of
                     Inl e \<Rightarrow> Inl e
                   | Inr v \<Rightarrow> due_date_must_be_future now v)
      in case (r_title, r_description, r_priority, r_estimated, r_due) of
           (Inr t, Inr d, Inr p, Inr e, Inr du) \<Rightarrow>
             Inr \<lparr>TaskBase.title = t, TaskBase.description = d, TaskBase.priority = p,
                  TaskBase.estimated_hours = e, TaskBase.due_date = du\<rparr>
         | _ \<Rightarrow>
             Inl (ValidationError
                   (err ''title'' r_title @ err ''description'' r_description
                    @ err ''priority'' r_priority @ err ''estimated_hours'' r_estimated
                    @ err ''due_date'' r_due)))"

definition opt_val :: "('a \<Rightarrow> pyval) \<Rightarrow> 'a option \<Rightarrow> pyval" where
  "opt_val f x = (case x of None \<Rightarrow> PNone | Some a \<Rightarrow> f a)"

definition TaskCreate_dict :: "TaskCreate \<Rightarrow> pydict" where
  \<comment> \<open>\<^verbatim>\<open>task.dict()\<close>: every field of the model, \<^verbatim>\<open>None\<close> ones included\<close>
  "TaskCreate_dict task =
     [k_title \<mapsto> PStr (TaskBase.title task),
      k_description \<mapsto> opt_val PStr (TaskBase.description task),
      k_priority \<mapsto> PPriority (TaskBase.priority task),
      k_estimated_hours \<mapsto> opt_val PFloat (TaskBase.estimated_hours task),
      k_due_date \<mapsto> opt_val PDatetime (TaskBase.due_date task)]"

definition TaskUpdate_fields :: "key list" where
  "TaskUpdate_fields =
     [k_title, k_description, k_priority, k_status, k_estimated_hours, k_due_date,
      k_actual_hours]"

definition TaskUpdate_init :: "int \<Rightarrow> pydict \<Rightarrow> py_error + TaskUpdate" where
  "TaskUpdate_init now payload =
     (let r_title = optional (field_str 1 (Some 100)) (payload k_title);
          r_description = optional (field_str 0 (Some 500)) (payload k_description);
          r_priority = optional field_priority (payload k_priority);
          r_status = optional field_status (payload k_status);
          r_estimated = optional (field_float (Some (1 / 10)) (Some 100)) (payload k_estimated_hours);
          r_due = (case optional field_datetime_input (payload k_due_date) of
                     Inl e \<Rightarrow> Inl e
                   | Inr v \<Rightarrow> due_date_validation now v);
          r_actual = optional (field_float (Some 0) (Some 200)) (payload k_actual_hours)
      in case (r_title, r_description, r_priority, r_status, r_estimated, r_due, r_actual) of
           (Inr t, Inr d, Inr p, Inr s, Inr e, Inr du, Inr a) \<Rightarrow>
             Inr \<lparr>title = opt_val PStr t, description = opt_val PStr d,
                  priority = opt_val PPriority p, status = opt_val PStatus s,
                  estimated_hours = opt_val PFloat e, due_date = opt_val PDatetime du,
                  actual_hours = opt_val PFloat a,
                  fields_set = set (filter (\<lambda>k. payload k \<noteq> None) TaskUpdate_fields)\<rparr>
         | _ \<Rightarrow>
             Inl (ValidationError
                   (err ''title'' r_title @ err ''description'' r_description
                    @ err ''priority'' r_priority @ err ''status'' r_status
                    @ err ''estimated_hours'' r_estimated @ err ''due_date'' r_due
                    @ err ''actual_hours'' r_actual)))"

definition TaskUpdate_dict_exclude_unset :: "TaskUpdate \<Rightarrow> pydict" where
  \<comment> \<open>\<^verbatim>\<open>task_update.dict(exclude_unset=True)\<close>\<close>
  "TaskUpdate_dict_exclude_unset u =
     [k_title \<mapsto> title u, k_description \<mapsto> description u, k_priority \<mapsto> priority u,
      k_status \<mapsto> status u, k_estimated_hours \<mapsto> estimated_hours u,
      k_due_date \<mapsto> due_date u, k_actual_hours \<mapsto> actual_hours u] |` fields_set u"

text \<open>\<^verbatim>\<open>Task(**task_data)\<close>: the response model built from a stored dictionary.\<close>

definition Task_init :: "pydict \<Rightarrow> py_error + Task" where
  "Task_init d =
     (let r_title = required (field_str 1 (Some 100)) (d k_title);
          r_description = optional (field_str 0 (Some 500)) (d k_description);
          r_priority = defaulted MEDIUM field_priority (d k_priority);
          r_estimated = optional (field_float (Some (1 / 10)) (Some 100)) (d k_estimated_hours);
          r_due = optional field_datetime (d k_due_date);
          r_id = required (field_str 0 None) (d k_id);
          r_status = defaulted PENDING field_status (d k_status);
          r_created = required field_datetime (d k_created_at);
          r_updated = required field_datetime (d k_updated_at);
          r_actual = optional (field_float None None) (d k_actual_hours);
          r_overdue = defaulted False field_bool (d k_is_overdue)
      in case (r_title, r_description, r_priority, r_estimated, r_due, r_id, r_status,
               r_created, r_updated, r_actual, r_overdue) of
           (Inr t, Inr de, Inr p, Inr e, Inr du, Inr i, Inr s, Inr c, Inr u, Inr a, Inr ov) \<Rightarrow>
             Inr \<lparr>TaskBase.title = t, TaskBase.description = de, TaskBase.priority = p,
                  TaskBase.estimated_hours = e, TaskBase.due_date = du,
                  id = i, Task.status = s, created_at = c, updated_at = u,
                  Task.actual_hours = a, is_overdue = ov\<rparr>
         | _ \<Rightarrow>
             Inl (ValidationError
                   (err ''title'' r_title @ err ''description'' r_description
                    @ err ''priority'' r_priority @ err ''estimated_hours'' r_estimated
                    @ err ''due_date'' r_due @ err ''id'' r_id @ err ''status'' r_status
                    @ err ''created_at'' r_created @ err ''updated_at'' r_updated
                    @ err ''actual_hours'' r_actual @ err ''is_overdue'' r_overdue)))"

section \<open>The store\<close>

text \<open>\<^verbatim>\<open>tasks_db\<close> is a \<^verbatim>\<open>dict\<close> from id to task dictionary. A Python dictionary iterates
  in insertion order, which \<^verbatim>\<open>read_all_tasks\<close> observes through its stable sort, so the
  store is an association list: assigning to a key that exists replaces the value in
  place, assigning to a new key appends.\<close>

type_synonym tasks_db = "(string \<times> pydict) list"

fun db_setitem :: "tasks_db \<Rightarrow> string \<Rightarrow> pydict \<Rightarrow> tasks_db" where
  "db_setitem [] k v = [(k, v)]"
| "db_setitem ((k', v') # rest) k v =
     (if k' = k then (k, v) # rest else (k', v') # db_setitem rest k v)"

definition db_delitem :: "tasks_db \<Rightarrow> string \<Rightarrow> tasks_db" where
  "db_delitem db k = filter (\<lambda>kv. fst kv \<noteq> k) db"

definition db_values :: "tasks_db \<Rightarrow> pydict list" where
  "db_values db = map snd db"

text \<open>A dictionary, and a store, that hold no timezone-aware datetime. The empty store is
  one, and every operation takes such a store to such a store.\<close>

fun is_aware :: "pyval \<Rightarrow> bool" where
  "is_aware (PAwareDatetime d) = True"
| "is_aware v = False"

definition naive_dict :: "pydict \<Rightarrow> bool" where
  "naive_dict d = (\<forall>k. \<not> is_aware (dict_get d k))"

definition naive_db :: "tasks_db \<Rightarrow> bool" where
  "naive_db db = list_all naive_dict (db_values db)"

section \<open>The rule engine\<close>

text \<open>Every \<^verbatim>\<open>datetime.now()\<close> of the source is its own reading of the clock. Each call
  site gets its own argument, so nothing is assumed about how far the clock moves between
  two lines; a theorem that needs two readings to be close says so.\<close>

definition calculate_overdue_status :: "int \<Rightarrow> pydict \<Rightarrow> py_error + bool" where
  "calculate_overdue_status now task_data =
     (if truthy (dict_get task_data k_due_date) then
        (case dict_index task_data k_status of
           Inl e \<Rightarrow> Inl e
         | Inr s \<Rightarrow>
             if \<not> is_status s COMPLETED then
               (case dict_index task_data k_due_date of
                  Inl e \<Rightarrow> Inl e
                | Inr (PDatetime d) \<Rightarrow> Inr (d < now)
                | Inr v \<Rightarrow> Inl TypeError)
             else Inr False)
      else Inr False)"

record rule_clock =
  now_due :: int
  now_overdue :: int
  now_updated :: int

definition apply_business_rules :: "rule_clock \<Rightarrow> pydict \<Rightarrow> py_error + pydict" where
  "apply_business_rules clk task_data =
     (case dict_index task_data k_status of
        Inl e \<Rightarrow> Inl e
      | Inr s \<Rightarrow>
          let td1 = (if is_status s COMPLETED \<and> \<not> truthy (dict_get task_data k_actual_hours)
                     then task_data(k_actual_hours \<mapsto>
                            dict_get_default task_data k_estimated_hours (PFloat 1))
                     else task_data)
          in (case dict_index td1 k_priority of
                Inl e \<Rightarrow> Inl e
              | Inr p \<Rightarrow>
                  (let td2 = (if is_priority p URGENT \<and> \<not> truthy (dict_get td1 k_due_date)
                              then td1(k_due_date \<mapsto>
                                     PDatetime (now_due clk + timedelta_days 1))
                              else td1)
                   in (case calculate_overdue_status (now_overdue clk) td2 of
                         Inl e \<Rightarrow> Inl e
                       | Inr b \<Rightarrow>
                           Inr (td2(k_is_overdue \<mapsto> PBool b,
                                    k_updated_at \<mapsto> PDatetime (now_updated clk)))))))"

section \<open>The operations\<close>

text \<open>Each operation takes the store and returns its result, a value or the exception
  raised, together with the store it leaves behind: an exception raised after an
  assignment to the store does not undo the assignment.\<close>

definition create_task ::
  "string \<Rightarrow> int \<Rightarrow> int \<Rightarrow> rule_clock \<Rightarrow> TaskCreate \<Rightarrow> tasks_db \<Rightarrow> (py_error + Task) \<times> tasks_db" where
  "create_task task_id now_created now_updated' clk task db =
     (let task_data = TaskCreate_dict task ++
            [k_id \<mapsto> PStr task_id,
             k_status \<mapsto> PStatus PENDING,
             k_created_at \<mapsto> PDatetime now_created,
             k_updated_at \<mapsto> PDatetime now_updated',
             k_actual_hours \<mapsto> PNone,
             k_is_overdue \<mapsto> PBool False]
      in (case apply_business_rules clk task_data of
            Inl e \<Rightarrow> (Inl e, db)
          | Inr task_data' \<Rightarrow> (Task_init task_data', db_setitem db task_id task_data')))"

definition read_all_step ::
  "int \<Rightarrow> TaskStatus option \<Rightarrow> TaskPriority option \<Rightarrow> bool \<Rightarrow> pydict
     \<Rightarrow> (py_error + Task list) \<times> pydict" where
  \<comment> \<open>one iteration: the tasks appended to \<^verbatim>\<open>filtered_tasks\<close>, and the dictionary as the
     iteration leaves it\<close>
  "read_all_step now q_status q_priority overdue_only task_data =
     (case calculate_overdue_status now task_data of
        Inl e \<Rightarrow> (Inl e, task_data)
      | Inr b \<Rightarrow>
          let td = task_data(k_is_overdue \<mapsto> PBool b) in
          (case (case q_status of
                  None \<Rightarrow> Inr False
                | Some s \<Rightarrow> (case dict_index td k_status of
                               Inl e \<Rightarrow> Inl e
                             | Inr v \<Rightarrow> Inr (\<not> is_status v s))) of
            Inl e \<Rightarrow> (Inl e, td)
          | Inr True \<Rightarrow> (Inr [], td)
          | Inr False \<Rightarrow>
              (case (case q_priority of
                       None \<Rightarrow> Inr False
                     | Some p \<Rightarrow> (case dict_index td k_priority of
                                    Inl e \<Rightarrow> Inl e
                                  | Inr v \<Rightarrow> Inr (\<not> is_priority v p))) of
                 Inl e \<Rightarrow> (Inl e, td)
               | Inr True \<Rightarrow> (Inr [], td)
               | Inr False \<Rightarrow>
                   if overdue_only \<and> \<not> b then (Inr [], td)
                   else (case Task_init td of
                           Inl e \<Rightarrow> (Inl e, td)
                         | Inr t \<Rightarrow> (Inr [t], td)))))"

fun read_all_loop ::
  "(nat \<Rightarrow> int) \<Rightarrow> nat \<Rightarrow> TaskStatus option \<Rightarrow> TaskPriority option \<Rightarrow> bool \<Rightarrow> tasks_db
     \<Rightarrow> (py_error + Task list) \<times> tasks_db" where
  "read_all_loop now_at i q_status q_priority overdue_only [] = (Inr [], [])"
| "read_all_loop now_at i q_status q_priority overdue_only ((k, task_data) # rest) =
     (case read_all_step (now_at i) q_status q_priority overdue_only task_data of
        (Inl e, td) \<Rightarrow> (Inl e, (k, td) # rest)
      | (Inr ts, td) \<Rightarrow>
          (case read_all_loop now_at (Suc i) q_status q_priority overdue_only rest of
             (Inl e, rest') \<Rightarrow> (Inl e, (k, td) # rest')
           | (Inr ts', rest') \<Rightarrow> (Inr (ts @ ts'), (k, td) # rest')))"

definition sort_key_of :: "Task \<Rightarrow> bool \<times> int" where
  \<comment> \<open>\<^verbatim>\<open>lambda x: (x.priority == TaskPriority.URGENT, x.created_at)\<close>\<close>
  "sort_key_of x = (TaskBase.priority x = URGENT, created_at x)"

definition sort_reverse :: "Task list \<Rightarrow> Task list" where
  \<comment> \<open>\<^verbatim>\<open>list.sort(key=..., reverse=True)\<close>: stable, equal keys keep their order\<close>
  "sort_reverse xs = rev (sort_key sort_key_of (rev xs))"

definition read_all_tasks ::
  "(nat \<Rightarrow> int) \<Rightarrow> TaskStatus option \<Rightarrow> TaskPriority option \<Rightarrow> bool \<Rightarrow> int \<Rightarrow> tasks_db
     \<Rightarrow> (py_error + Task list) \<times> tasks_db" where
  "read_all_tasks now_at q_status q_priority overdue_only limit db =
     (if limit < 1 then (Inl (ValidationError [(''limit'', ''ge'')]), db)
      else if 1000 < limit then (Inl (ValidationError [(''limit'', ''le'')]), db)
      else case read_all_loop now_at 0 q_status q_priority overdue_only db of
             (Inl e, db') \<Rightarrow> (Inl e, db')
           | (Inr filtered_tasks, db') \<Rightarrow>
               (Inr (take (nat limit) (sort_reverse filtered_tasks)), db'))"

definition read_task :: "int \<Rightarrow> string \<Rightarrow> tasks_db \<Rightarrow> (py_error + Task) \<times> tasks_db" where
  "read_task now task_id db =
     (case map_of db task_id of
        None \<Rightarrow> (Inl (HTTPException 404 ''Task not found''), db)
      | Some task_data \<Rightarrow>
          (case calculate_overdue_status now task_data of
             Inl e \<Rightarrow> (Inl e, db)
           | Inr b \<Rightarrow> (Task_init (task_data(k_is_overdue \<mapsto> PBool b)), db)))"

definition update_task ::
  "rule_clock \<Rightarrow> string \<Rightarrow> TaskUpdate \<Rightarrow> tasks_db \<Rightarrow> (py_error + Task) \<times> tasks_db" where
  "update_task clk task_id task_update db =
     (case map_of db task_id of
        None \<Rightarrow> (Inl (HTTPException 404 ''Task not found''), db)
      | Some task_data \<Rightarrow>
          (case dict_index task_data k_status of
             Inl e \<Rightarrow> (Inl e, db)
           | Inr s \<Rightarrow>
               if is_status s COMPLETED \<and> \<not> is_status (status task_update) COMPLETED
               then (Inl (HTTPException 400 ''Cannot change status of completed task''), db)
               else
                 let task_update' =
                       (if is_status (status task_update) COMPLETED \<and> \<not> is_status s COMPLETED
                           \<and> \<not> truthy (actual_hours task_update)
                           \<and> \<not> truthy (dict_get task_data k_actual_hours)
                        then task_update
                               \<lparr>actual_hours :=
                                  dict_get_default task_data k_estimated_hours (PFloat 1),
                                fields_set := insert k_actual_hours (fields_set task_update)\<rparr>
                        else task_update);
                     update_data = TaskUpdate_dict_exclude_unset task_update'
                 in (case apply_business_rules clk (task_data ++ update_data) of
                       Inl e \<Rightarrow> (Inl e, db)
                     | Inr task_data' \<Rightarrow>
                         (Task_init task_data', db_setitem db task_id task_data'))))"

definition delete_task :: "string \<Rightarrow> tasks_db \<Rightarrow> (py_error + string) \<times> tasks_db" where
  "delete_task task_id db =
     (case map_of db task_id of
        None \<Rightarrow> (Inl (HTTPException 404 ''Task not found''), db)
      | Some task \<Rightarrow>
          (case dict_index task k_status of
             Inl e \<Rightarrow> (Inl e, db)
           | Inr s \<Rightarrow>
               if is_status s IN_PROGRESS
               then (Inl (HTTPException 400 ''Cannot delete task in progress''), db)
               else (Inr ''Task deleted successfully'', db_delitem db task_id)))"

fun count_in_progress :: "pydict list \<Rightarrow> py_error + nat" where
  \<comment> \<open>\<^verbatim>\<open>sum(1 for task in tasks_db.values() if task['status'] == TaskStatus.IN_PROGRESS)\<close>\<close>
  "count_in_progress [] = Inr 0"
| "count_in_progress (task # rest) =
     (case dict_index task k_status of
        Inl e \<Rightarrow> Inl e
      | Inr s \<Rightarrow>
          (case count_in_progress rest of
             Inl e \<Rightarrow> Inl e
           | Inr n \<Rightarrow> Inr ((if is_status s IN_PROGRESS then 1 else 0) + n)))"

definition delete_all_tasks :: "bool \<Rightarrow> tasks_db \<Rightarrow> (py_error + string) \<times> tasks_db" where
  "delete_all_tasks force db =
     (case (if \<not> force then count_in_progress (db_values db) else Inr 0) of
        Inl e \<Rightarrow> (Inl e, db)
      | Inr in_progress_count \<Rightarrow>
          if \<not> force \<and> 0 < in_progress_count
          then (Inl (HTTPException 400
                       (''Cannot delete '' @ str_nat in_progress_count
                        @ '' in-progress tasks. Use force=true to override'')), db)
          else (Inr (''Deleted '' @ str_nat (length db) @ '' tasks successfully''), []))"

text \<open>The two routes with a request body: the framework builds the model from the body
  first and calls the handler only when that succeeds.\<close>

definition post_tasks ::
  "int \<Rightarrow> string \<Rightarrow> int \<Rightarrow> int \<Rightarrow> rule_clock \<Rightarrow> pydict \<Rightarrow> tasks_db \<Rightarrow> (py_error + Task) \<times> tasks_db" where
  "post_tasks now_validator task_id now_created now_updated' clk payload db =
     (case TaskCreate_init now_validator payload of
        Inl e \<Rightarrow> (Inl e, db)
      | Inr task \<Rightarrow> create_task task_id now_created now_updated' clk task db)"

definition put_tasks ::
  "int \<Rightarrow> rule_clock \<Rightarrow> string \<Rightarrow> pydict \<Rightarrow> tasks_db \<Rightarrow> (py_error + Task) \<times> tasks_db" where
  "put_tasks now_validator clk task_id payload db =
     (case TaskUpdate_init now_validator payload of
        Inl e \<Rightarrow> (Inl e, db)
      | Inr task_update \<Rightarrow> update_task clk task_id task_update db)"

section \<open>Notions of the specification\<close>

text \<open>The number of stored records whose status is \<^verbatim>\<open>in_progress\<close>, as the specification
  counts the records that block a bulk delete.\<close>

definition in_progress_count :: "tasks_db \<Rightarrow> nat" where
  "in_progress_count db =
     length (filter (\<lambda>task. is_status (dict_get task k_status) IN_PROGRESS) (db_values db))"

text \<open>The overdue flag as the specification defines it: a due date is set, the status is
  not \<^verbatim>\<open>completed\<close>, and the current time is strictly later than the due date.\<close>

definition spec_is_overdue :: "int \<Rightarrow> int option \<Rightarrow> TaskStatus \<Rightarrow> bool" where
  "spec_is_overdue now due st =
     (case due of None \<Rightarrow> False | Some d \<Rightarrow> st \<noteq> COMPLETED \<and> d < now)"













section \<open>The operations in closed form\<close>

text \<open>The definitions of this section name what the operations compute, so that the
  theorems can speak about it; each is proved equal to the code it describes, none is
  used in place of the code.

  A \<^verbatim>\<open>TaskCreate\<close> instance that satisfies the \<^verbatim>\<open>Field\<close> constraints of its class.\<close>

definition valid_TaskCreate :: "TaskCreate \<Rightarrow> bool" where
  "valid_TaskCreate task =
     (1 \<le> length (TaskBase.title task) \<and> length (TaskBase.title task) \<le> 100
      \<and> (case TaskBase.description task of None \<Rightarrow> True | Some s \<Rightarrow> length s \<le> 500)
      \<and> (case TaskBase.estimated_hours task of
            None \<Rightarrow> True | Some r \<Rightarrow> 1 / 10 \<le> r \<and> r \<le> 100))"

text \<open>The three values \<^verbatim>\<open>apply_business_rules\<close> writes besides \<^verbatim>\<open>updated_at\<close>, as functions of
  the dictionary it is given: the actual hours after line 71, the due date after line 74
  and the overdue flag of line 76.\<close>

definition derived_actual_hours :: "pydict \<Rightarrow> pyval option" where
  "derived_actual_hours d =
     (if is_status (dict_get d k_status) COMPLETED \<and> \<not> truthy (dict_get d k_actual_hours)
      then Some (dict_get_default d k_estimated_hours (PFloat 1)) else d k_actual_hours)"

definition derived_due_date :: "rule_clock \<Rightarrow> pydict \<Rightarrow> pyval option" where
  "derived_due_date clk d =
     (if is_priority (dict_get d k_priority) URGENT \<and> \<not> truthy (dict_get d k_due_date)
      then Some (PDatetime (now_due clk + timedelta_days 1)) else d k_due_date)"

definition derived_is_overdue :: "rule_clock \<Rightarrow> pydict \<Rightarrow> bool" where
  "derived_is_overdue clk d =
     (case derived_due_date clk d of
        Some (PDatetime x) \<Rightarrow> \<not> is_status (dict_get d k_status) COMPLETED \<and> x < now_overdue clk
      | _ \<Rightarrow> False)"

text \<open>The record \<^verbatim>\<open>create_task\<close> returns for a valid instance, and the dictionary it
  stores.\<close>

definition created_due_date :: "rule_clock \<Rightarrow> TaskCreate \<Rightarrow> int option" where
  "created_due_date clk task =
     (if TaskBase.priority task = URGENT \<and> TaskBase.due_date task = None
      then Some (now_due clk + timedelta_days 1) else TaskBase.due_date task)"

definition created_task :: "string \<Rightarrow> int \<Rightarrow> rule_clock \<Rightarrow> TaskCreate \<Rightarrow> Task" where
  "created_task task_id now_created clk task =
     \<lparr>TaskBase.title = TaskBase.title task, TaskBase.description = TaskBase.description task,
      TaskBase.priority = TaskBase.priority task,
      TaskBase.estimated_hours = TaskBase.estimated_hours task,
      TaskBase.due_date = created_due_date clk task,
      id = task_id, Task.status = PENDING, created_at = now_created,
      updated_at = now_updated clk, Task.actual_hours = None,
      is_overdue = spec_is_overdue (now_overdue clk) (created_due_date clk task) PENDING\<rparr>"

definition created_dict :: "string \<Rightarrow> int \<Rightarrow> rule_clock \<Rightarrow> TaskCreate \<Rightarrow> pydict" where
  "created_dict task_id now_created clk task =
     [k_title \<mapsto> PStr (TaskBase.title task),
      k_description \<mapsto> opt_val PStr (TaskBase.description task),
      k_priority \<mapsto> PPriority (TaskBase.priority task),
      k_estimated_hours \<mapsto> opt_val PFloat (TaskBase.estimated_hours task),
      k_due_date \<mapsto> opt_val PDatetime (created_due_date clk task),
      k_id \<mapsto> PStr task_id,
      k_status \<mapsto> PStatus PENDING,
      k_created_at \<mapsto> PDatetime now_created,
      k_updated_at \<mapsto> PDatetime (now_updated clk),
      k_actual_hours \<mapsto> PNone,
      k_is_overdue \<mapsto>
        PBool (spec_is_overdue (now_overdue clk) (created_due_date clk task) PENDING)]"

text \<open>Lines 141 to 143 of \<^verbatim>\<open>update_task\<close>: the patch after the defaulting of its actual
  hours.\<close>

definition completion_default :: "pydict \<Rightarrow> TaskUpdate \<Rightarrow> TaskUpdate" where
  "completion_default task_data task_update =
     (if is_status (status task_update) COMPLETED
         \<and> \<not> is_status (dict_get task_data k_status) COMPLETED
         \<and> \<not> truthy (actual_hours task_update)
         \<and> \<not> truthy (dict_get task_data k_actual_hours)
      then task_update
             \<lparr>actual_hours := dict_get_default task_data k_estimated_hours (PFloat 1),
              fields_set := insert k_actual_hours (fields_set task_update)\<rparr>
      else task_update)"

text \<open>An update is rejected when it raises before the store is assigned. A validation
  error of the response model is raised after the assignment, so it is not a
  rejection.\<close>

definition rejected :: "py_error + 'a \<Rightarrow> bool" where
  "rejected r = (case r of Inl (ValidationError errs) \<Rightarrow> False | Inl e \<Rightarrow> True | Inr a \<Rightarrow> False)"

section \<open>Example data\<close>

text \<open>A store of three records, a clock, and a few request bodies and patches, for the
  concrete instances of the theorems.\<close>

definition example_task ::
  "string \<Rightarrow> TaskPriority \<Rightarrow> TaskStatus \<Rightarrow> int \<Rightarrow> pyval \<Rightarrow> pyval \<Rightarrow> pyval \<Rightarrow> pydict" where
  "example_task i p s created due est act =
     [k_title \<mapsto> PStr ''task'', k_description \<mapsto> PNone, k_priority \<mapsto> PPriority p,
      k_estimated_hours \<mapsto> est, k_due_date \<mapsto> due, k_id \<mapsto> PStr i,
      k_status \<mapsto> PStatus s, k_created_at \<mapsto> PDatetime created,
      k_updated_at \<mapsto> PDatetime created, k_actual_hours \<mapsto> act,
      k_is_overdue \<mapsto> PBool False]"

definition example_a :: pydict where
  "example_a = example_task ''a'' MEDIUM IN_PROGRESS 10 PNone PNone PNone"

definition example_b :: pydict where
  "example_b = example_task ''b'' URGENT COMPLETED 20 (PDatetime 50) (PFloat 5) (PFloat 5)"

definition example_c :: pydict where
  "example_c = example_task ''c'' LOW PENDING 30 (PDatetime 60) PNone PNone"

definition example_db :: tasks_db where
  "example_db = [(''a'', example_a), (''b'', example_b), (''c'', example_c)]"

definition example_clock :: rule_clock where
  "example_clock = \<lparr>now_due = 100, now_overdue = 101, now_updated = 102\<rparr>"

definition example_u :: pydict where
  "example_u = example_task ''u'' URGENT PENDING 40 PNone PNone PNone"

definition example_patch_urgent :: TaskUpdate where
  "example_patch_urgent =
     \<lparr>title = PNone, description = PNone, priority = PPriority URGENT, status = PNone,
      estimated_hours = PNone, due_date = PNone, actual_hours = PNone,
      fields_set = {k_priority, k_due_date}\<rparr>"

definition example_patch_clear :: TaskUpdate where
  "example_patch_clear =
     \<lparr>title = PNone, description = PNone, priority = PNone, status = PNone,
      estimated_hours = PNone, due_date = PNone, actual_hours = PNone,
      fields_set = {k_due_date}\<rparr>"

definition example_new :: pydict where
  "example_new = [k_title \<mapsto> PStr ''t'']"

definition example_complete :: pydict where
  "example_complete = [k_status \<mapsto> PStatus COMPLETED]"

definition example_estimated :: pydict where
  "example_estimated = [k_title \<mapsto> PStr ''t'', k_estimated_hours \<mapsto> PFloat 5]"

definition example_hours :: pydict where
  "example_hours = [k_actual_hours \<mapsto> PFloat 3]"

definition example_zero :: pydict where
  "example_zero =
     [k_status \<mapsto> PStatus COMPLETED, k_actual_hours \<mapsto> PFloat 0,
      k_estimated_hours \<mapsto> PFloat 7]"

definition example_zero_only :: pydict where
  "example_zero_only = [k_status \<mapsto> PStatus COMPLETED, k_actual_hours \<mapsto> PFloat 0]"

definition example_worked :: tasks_db where
  "example_worked =
     snd (put_tasks 200 example_clock ''n'' example_hours
            (snd (post_tasks 90 ''n'' 100 100 example_clock example_estimated [])))"

definition example_worked_dict :: pydict where
  "example_worked_dict =
     [k_title \<mapsto> PStr ''t'', k_description \<mapsto> PNone, k_priority \<mapsto> PPriority MEDIUM,
      k_estimated_hours \<mapsto> PFloat 5, k_due_date \<mapsto> PNone, k_id \<mapsto> PStr ''n'',
      k_status \<mapsto> PStatus PENDING, k_created_at \<mapsto> PDatetime 100,
      k_updated_at \<mapsto> PDatetime 102, k_actual_hours \<mapsto> PFloat 3,
      k_is_overdue \<mapsto> PBool False]"








section \<open>Properties\<close>

subsection \<open>Validated dictionaries and the listing loop\<close>




lemma Task_init_InrD:
  assumes "Task_init d = Inr t"
  shows "required (field_str 1 (Some 100)) (d k_title) = Inr (TaskBase.title t)"
    and "optional (field_str 0 (Some 500)) (d k_description) = Inr (TaskBase.description t)"
    and "defaulted MEDIUM field_priority (d k_priority) = Inr (TaskBase.priority t)"
    and "optional (field_float (Some (1 / 10)) (Some 100)) (d k_estimated_hours)
           = Inr (TaskBase.estimated_hours t)"
    and "optional field_datetime (d k_due_date) = Inr (TaskBase.due_date t)"
    and "required (field_str 0 None) (d k_id) = Inr (Task.id t)"
    and "defaulted PENDING field_status (d k_status) = Inr (Task.status t)"
    and "required field_datetime (d k_created_at) = Inr (created_at t)"
    and "required field_datetime (d k_updated_at) = Inr (updated_at t)"
    and "optional (field_float None None) (d k_actual_hours) = Inr (Task.actual_hours t)"
    and "defaulted False field_bool (d k_is_overdue) = Inr (is_overdue t)"
  using assms unfolding Task_init_def Let_def
  by (auto split: sum.splits)

lemma Task_init_InrI:
  assumes "required (field_str 1 (Some 100)) (d k_title) = Inr ti"
    and "optional (field_str 0 (Some 500)) (d k_description) = Inr de"
    and "defaulted MEDIUM field_priority (d k_priority) = Inr p"
    and "optional (field_float (Some (1 / 10)) (Some 100)) (d k_estimated_hours) = Inr e"
    and "optional field_datetime (d k_due_date) = Inr du"
    and "required (field_str 0 None) (d k_id) = Inr i"
    and "defaulted PENDING field_status (d k_status) = Inr s"
    and "required field_datetime (d k_created_at) = Inr c"
    and "required field_datetime (d k_updated_at) = Inr u"
    and "optional (field_float None None) (d k_actual_hours) = Inr a"
    and "defaulted False field_bool (d k_is_overdue) = Inr ov"
  shows "Task_init d =
     Inr \<lparr>TaskBase.title = ti, TaskBase.description = de, TaskBase.priority = p,
          TaskBase.estimated_hours = e, TaskBase.due_date = du,
          id = i, Task.status = s, created_at = c, updated_at = u,
          Task.actual_hours = a, is_overdue = ov\<rparr>"
  using assms unfolding Task_init_def Let_def by simp











lemma stable_sort_reverse:
  "filter (\<lambda>x. sort_key_of x = k) (sort_reverse xs) = filter (\<lambda>x. sort_key_of x = k) xs"
proof -
  have "filter (\<lambda>x. sort_key_of x = k) (sort_key sort_key_of (rev xs))
          = filter (\<lambda>x. sort_key_of x = k) (rev xs)"
    by (rule sort_key_stable)
  then show ?thesis
    by (simp add: sort_reverse_def rev_filter [symmetric])
qed


subsection \<open>The example store\<close>

lemmas model_defs =
  required_def optional_def defaulted_def err_def opt_val_def str_length_check_def








subsection \<open>Bulk delete\<close>

lemma count_in_progress_eq:
  "\<forall>task \<in> set tasks. task k_status \<noteq> None \<Longrightarrow>
   count_in_progress tasks =
     Inr (length (filter (\<lambda>task. is_status (dict_get task k_status) IN_PROGRESS) tasks))"
  by (induction tasks) (auto simp: dict_index_def dict_get_def)

text \<open>
  Claim C7. When \<^verbatim>\<open>force\<close> is false and at least one stored record is in progress,
  \<^verbatim>\<open>delete_all_tasks\<close> raises the 400 error whose message carries the number of
  in-progress records, and the store is left exactly as it was. When \<^verbatim>\<open>force\<close> is true,
  or no record is in progress, the store is emptied and the message carries the number
  of records the store held before. (Without \<^verbatim>\<open>force\<close> the code reads the status of every
  record, so every record must have one.)
\<close>

theorem delete_all_tasks_all_or_nothing:
  assumes "force \<or> (\<forall>task \<in> set (db_values db). task k_status \<noteq> None)"
  shows "(\<not> force \<and> 0 < in_progress_count db \<longrightarrow>
            delete_all_tasks force db =
              (Inl (HTTPException 400
                     (''Cannot delete '' @ str_nat (in_progress_count db)
                      @ '' in-progress tasks. Use force=true to override'')), db))
       \<and> (force \<or> in_progress_count db = 0 \<longrightarrow>
            delete_all_tasks force db =
              (Inr (''Deleted '' @ str_nat (length db) @ '' tasks successfully''), []))"
proof (cases force)
  case True
  then show ?thesis by (simp add: delete_all_tasks_def)
next
  case False
  with assms have "count_in_progress (db_values db) = Inr (in_progress_count db)"
    by (simp add: count_in_progress_eq in_progress_count_def)
  with False show ?thesis by (simp add: delete_all_tasks_def)
qed

theorem delete_all_tasks_all_or_nothing_witness:
  "list_all (\<lambda>task. task k_status \<noteq> None) (db_values example_db)
   \<and> in_progress_count example_db = 1
   \<and> delete_all_tasks False example_db =
       (Inl (HTTPException 400
              ''Cannot delete 1 in-progress tasks. Use force=true to override''), example_db)
   \<and> delete_all_tasks True example_db = (Inr ''Deleted 3 tasks successfully'', [])"
proof -
  have keys: "\<forall>task \<in> set (db_values example_db). task k_status \<noteq> None"
    by (simp add: example_db_def example_a_def example_b_def example_c_def example_task_def
        db_values_def)
  have n: "in_progress_count example_db = 1"
    by (simp add: in_progress_count_def example_db_def example_a_def example_b_def
        example_c_def example_task_def db_values_def dict_get_def)
  have s1: "str_nat (Suc 0) = ''1''" and s3: "str_nat 3 = ''3''"
    by (simp_all add: str_nat.simps)
  have len: "length example_db = 3"
    by (simp add: example_db_def)
  from keys have a: "False \<or> (\<forall>task \<in> set (db_values example_db). task k_status \<noteq> None)"
    by simp
  show ?thesis
    using keys n delete_all_tasks_all_or_nothing [OF a]
      delete_all_tasks_all_or_nothing [of True example_db]
    by (simp add: s1 s3 len list_all_iff)
qed

subsection \<open>The guard on completed tasks\<close>

text \<open>
  Claim C2. When the stored status of a task is \<^verbatim>\<open>completed\<close>, \<^verbatim>\<open>update_task\<close> raises the
  400 error "Cannot change status of completed task" for every patch whose status is not
  \<^verbatim>\<open>completed\<close>, and leaves the store as it was. A request body without a \<^verbatim>\<open>status\<close> key
  gives a patch whose status is \<^verbatim>\<open>None\<close>, which is not \<^verbatim>\<open>completed\<close>, so such a request is
  rejected as well.
\<close>

theorem update_completed_task_rejected:
  assumes "map_of db task_id = Some task_data"
    and "task_data k_status = Some s"
    and "is_status s COMPLETED"
  shows "(\<not> is_status (status task_update) COMPLETED \<longrightarrow>
            update_task clk task_id task_update db =
              (Inl (HTTPException 400 ''Cannot change status of completed task''), db))
       \<and> (payload k_status = None \<and> TaskUpdate_init now payload = Inr task_update \<longrightarrow>
            put_tasks now clk task_id payload db =
              (Inl (HTTPException 400 ''Cannot change status of completed task''), db))"
proof -
  have a: "\<not> is_status (status task_update) COMPLETED \<Longrightarrow>
            update_task clk task_id task_update db =
              (Inl (HTTPException 400 ''Cannot change status of completed task''), db)"
    using assms by (simp add: update_task_def dict_index_def)
  have b: "status task_update = PNone"
    if "payload k_status = None" "TaskUpdate_init now payload = Inr task_update"
    using that
    by (auto simp: TaskUpdate_init_def Let_def optional_def opt_val_def split: sum.splits)
  show ?thesis using a b by (auto simp: put_tasks_def)
qed

theorem update_completed_task_rejected_witness:
  "map_of example_db ''b'' = Some example_b
   \<and> put_tasks 40 example_clock ''b'' [k_title \<mapsto> PStr ''new''] example_db =
       (Inl (HTTPException 400 ''Cannot change status of completed task''), example_db)
   \<and> update_task example_clock ''b''
        \<lparr>title = PNone, description = PNone, priority = PNone, status = PStatus PENDING,
         estimated_hours = PNone, due_date = PNone, actual_hours = PNone,
         fields_set = {k_status}\<rparr> example_db =
       (Inl (HTTPException 400 ''Cannot change status of completed task''), example_db)"
proof -
  let ?u = "\<lparr>title = PStr ''new'', description = PNone, priority = PNone, status = PNone,
         estimated_hours = PNone, due_date = PNone, actual_hours = PNone,
         fields_set = {k_title}\<rparr>"
  let ?v = "\<lparr>title = PNone, description = PNone, priority = PNone, status = PStatus PENDING,
         estimated_hours = PNone, due_date = PNone, actual_hours = PNone,
         fields_set = {k_status}\<rparr>"
  have m: "map_of example_db ''b'' = Some example_b"
    by (simp add: example_db_def)
  have s: "example_b k_status = Some (PStatus COMPLETED)"
    by (simp add: example_b_def example_task_def)
  have c: "is_status (PStatus COMPLETED) COMPLETED"
    by simp
  have i: "TaskUpdate_init 40 [k_title \<mapsto> PStr ''new''] = Inr ?u"
    by (simp add: TaskUpdate_init_def optional_def str_length_check_def opt_val_def
        due_date_validation_def TaskUpdate_fields_def)
  show ?thesis
    using m i
      update_completed_task_rejected
        [OF m s c, of ?v example_clock "[k_title \<mapsto> PStr ''new'']" 40]
      update_completed_task_rejected
        [OF m s c, of ?u example_clock "[k_title \<mapsto> PStr ''new'']" 40]
    by simp
qed

subsection \<open>The overdue flag\<close>





subsection \<open>Creation, and the check on due dates\<close>


lemma field_float_PFloat: "field_float lo hi v = Inr r \<Longrightarrow> field_float lo hi (PFloat r) = Inr r"
  by (cases v) (auto split: if_splits)




lemma apply_business_rules_Inr:
  assumes s: "d k_status = Some s" and p: "d k_priority = Some p"
    and due: "d k_due_date = None \<or> d k_due_date = Some PNone
                \<or> (\<exists>x. d k_due_date = Some (PDatetime x))"
  shows "apply_business_rules clk d =
           Inr (d(k_actual_hours := derived_actual_hours d,
                  k_due_date := derived_due_date clk d,
                  k_is_overdue \<mapsto> PBool (derived_is_overdue clk d),
                  k_updated_at \<mapsto> PDatetime (now_updated clk)))"
proof -
  let ?d1 = "d(k_actual_hours := derived_actual_hours d)"
  let ?d2 = "?d1(k_due_date := derived_due_date clk d)"
  have 1: "(if is_status s COMPLETED \<and> \<not> truthy (dict_get d k_actual_hours)
            then d(k_actual_hours \<mapsto> dict_get_default d k_estimated_hours (PFloat 1))
            else d) = ?d1"
    using s by (auto simp: derived_actual_hours_def dict_get_def)
  have 2: "(if is_priority p URGENT \<and> \<not> truthy (dict_get ?d1 k_due_date)
            then ?d1(k_due_date \<mapsto> PDatetime (now_due clk + timedelta_days 1))
            else ?d1) = ?d2"
    using p by (auto simp: derived_due_date_def dict_get_def)
  have 3: "calculate_overdue_status (now_overdue clk) ?d2 = Inr (derived_is_overdue clk d)"
    using due s
    by (auto simp: calculate_overdue_status_def derived_is_overdue_def derived_due_date_def
        dict_get_def dict_index_def)
  have "apply_business_rules clk d =
          Inr (?d2(k_is_overdue \<mapsto> PBool (derived_is_overdue clk d),
                   k_updated_at \<mapsto> PDatetime (now_updated clk)))"
    unfolding apply_business_rules_def Let_def
    by (simp only: dict_index_def s p option.case sum.case 1 fun_upd_other key.distinct
        not_False_eq_True 2 3)
  then show ?thesis by simp
qed

lemma created_due_date_cases:
  "opt_val PDatetime (created_due_date clk task) =
     (if TaskBase.priority task = URGENT \<and> TaskBase.due_date task = None
      then PDatetime (now_due clk + timedelta_days 1)
      else opt_val PDatetime (TaskBase.due_date task))"
  by (simp add: created_due_date_def opt_val_def)

lemma create_task_valid:
  assumes "valid_TaskCreate task"
  shows "fst (create_task task_id now_created now_updated' clk task db)
           = Inr (created_task task_id now_created clk task)"
proof -
  define d0 where "d0 = TaskCreate_dict task ++
            [k_id \<mapsto> PStr task_id,
             k_status \<mapsto> PStatus PENDING,
             k_created_at \<mapsto> PDatetime now_created,
             k_updated_at \<mapsto> PDatetime now_updated',
             k_actual_hours \<mapsto> PNone,
             k_is_overdue \<mapsto> PBool False]"
  have l: "d0 k_title = Some (PStr (TaskBase.title task))"
    "d0 k_description = Some (opt_val PStr (TaskBase.description task))"
    "d0 k_priority = Some (PPriority (TaskBase.priority task))"
    "d0 k_estimated_hours = Some (opt_val PFloat (TaskBase.estimated_hours task))"
    "d0 k_due_date = Some (opt_val PDatetime (TaskBase.due_date task))"
    "d0 k_id = Some (PStr task_id)"
    "d0 k_status = Some (PStatus PENDING)"
    "d0 k_created_at = Some (PDatetime now_created)"
    "d0 k_actual_hours = Some PNone"
    by (simp_all add: d0_def TaskCreate_dict_def)
  have due: "d0 k_due_date = None \<or> d0 k_due_date = Some PNone
                \<or> (\<exists>x. d0 k_due_date = Some (PDatetime x))"
    by (cases "TaskBase.due_date task") (simp_all add: l opt_val_def)
  define d1 where "d1 = d0(k_actual_hours := derived_actual_hours d0,
                  k_due_date := derived_due_date clk d0,
                  k_is_overdue \<mapsto> PBool (derived_is_overdue clk d0),
                  k_updated_at \<mapsto> PDatetime (now_updated clk))"
  have r: "apply_business_rules clk d0 = Inr d1"
    unfolding d1_def using l(7) l(3) due by (rule apply_business_rules_Inr)
  have dd: "derived_due_date clk d0 = Some (opt_val PDatetime (created_due_date clk task))"
    by (cases "TaskBase.due_date task")
      (simp_all add: derived_due_date_def created_due_date_def dict_get_def l opt_val_def)
  have ov: "derived_is_overdue clk d0
              = spec_is_overdue (now_overdue clk) (created_due_date clk task) PENDING"
    by (cases "created_due_date clk task")
      (simp_all add: derived_is_overdue_def dd spec_is_overdue_def opt_val_def dict_get_def l)
  have ah: "derived_actual_hours d0 = Some PNone"
    by (simp add: derived_actual_hours_def dict_get_def l)
  have v0: "str_length_check 0 None task_id = Inr task_id"
    "optional (field_float None None) (Some PNone) = Inr None"
    by (simp_all add: str_length_check_def optional_def)
  from assms have v: "str_length_check (Suc 0) (Some 100) (TaskBase.title task) = Inr (TaskBase.title task)"
    "optional (field_str 0 (Some 500)) (Some (opt_val PStr (TaskBase.description task)))
       = Inr (TaskBase.description task)"
    "optional (field_float (Some (1 / 10)) (Some 100))
       (Some (opt_val PFloat (TaskBase.estimated_hours task)))
       = Inr (TaskBase.estimated_hours task)"
    by (auto simp: valid_TaskCreate_def str_length_check_def optional_def opt_val_def
        split: option.splits)
  have od: "optional field_datetime (Some (opt_val PDatetime x)) = Inr x" for x
    by (cases x) (simp_all add: optional_def opt_val_def)
  have "Task_init d1 = Inr (created_task task_id now_created clk task)"
    unfolding created_task_def
    by (rule Task_init_InrI)
      (simp_all add: d1_def l dd ov ah v v0 od required_def defaulted_def)
  then show ?thesis
    unfolding create_task_def Let_def d0_def [symmetric] r by simp
qed










subsection \<open>The structure of an update\<close>

lemma update_task_eq:
  assumes "map_of db task_id = Some d" and "d k_status = Some s"
    and "\<not> (is_status s COMPLETED \<and> \<not> is_status (status u) COMPLETED)"
  shows "update_task clk task_id u db =
           (case apply_business_rules clk
                   (d ++ TaskUpdate_dict_exclude_unset (completion_default d u)) of
              Inl e \<Rightarrow> (Inl e, db)
            | Inr d' \<Rightarrow> (Task_init d', db_setitem db task_id d'))"
  using assms
  by (auto simp: update_task_def completion_default_def dict_index_def dict_get_def Let_def)

lemma update_task_InrD:
  assumes "map_of db task_id = Some d" and "update_task clk task_id u db = (Inr t, db')"
  shows "\<exists>d'. apply_business_rules clk
                 (d ++ TaskUpdate_dict_exclude_unset (completion_default d u)) = Inr d'
              \<and> Task_init d' = Inr t \<and> db' = db_setitem db task_id d'"
proof -
  from assms obtain s where s: "d k_status = Some s"
    by (auto simp: update_task_def dict_index_def split: option.splits)
  from assms s have g: "\<not> (is_status s COMPLETED \<and> \<not> is_status (status u) COMPLETED)"
    by (auto simp: update_task_def dict_index_def split: if_splits)
  show ?thesis
    using assms(2) unfolding update_task_eq [OF assms(1) s g]
    by (auto split: sum.splits)
qed

lemma merged_lookup:
  "(d ++ TaskUpdate_dict_exclude_unset u) k_title
     = (if k_title \<in> fields_set u then Some (title u) else d k_title)"
  "(d ++ TaskUpdate_dict_exclude_unset u) k_description
     = (if k_description \<in> fields_set u then Some (description u) else d k_description)"
  "(d ++ TaskUpdate_dict_exclude_unset u) k_priority
     = (if k_priority \<in> fields_set u then Some (priority u) else d k_priority)"
  "(d ++ TaskUpdate_dict_exclude_unset u) k_status
     = (if k_status \<in> fields_set u then Some (status u) else d k_status)"
  "(d ++ TaskUpdate_dict_exclude_unset u) k_estimated_hours
     = (if k_estimated_hours \<in> fields_set u then Some (estimated_hours u)
        else d k_estimated_hours)"
  "(d ++ TaskUpdate_dict_exclude_unset u) k_due_date
     = (if k_due_date \<in> fields_set u then Some (due_date u) else d k_due_date)"
  "(d ++ TaskUpdate_dict_exclude_unset u) k_actual_hours
     = (if k_actual_hours \<in> fields_set u then Some (actual_hours u) else d k_actual_hours)"
  "(d ++ TaskUpdate_dict_exclude_unset u) k_id = d k_id"
  "(d ++ TaskUpdate_dict_exclude_unset u) k_created_at = d k_created_at"
  "(d ++ TaskUpdate_dict_exclude_unset u) k_updated_at = d k_updated_at"
  "(d ++ TaskUpdate_dict_exclude_unset u) k_is_overdue = d k_is_overdue"
  by (simp_all add: TaskUpdate_dict_exclude_unset_def map_add_def restrict_map_def)

lemma completion_default_other:
  "title (completion_default d u) = title u"
  "description (completion_default d u) = description u"
  "priority (completion_default d u) = priority u"
  "status (completion_default d u) = status u"
  "estimated_hours (completion_default d u) = estimated_hours u"
  "due_date (completion_default d u) = due_date u"
  "k \<noteq> k_actual_hours \<Longrightarrow> k \<in> fields_set (completion_default d u) \<longleftrightarrow> k \<in> fields_set u"
  by (simp_all add: completion_default_def)

lemma apply_business_rules_steps:
  assumes s: "d k_status = Some s" and p: "d k_priority = Some p"
  shows "apply_business_rules clk d =
           (case calculate_overdue_status (now_overdue clk)
                   (d(k_actual_hours := derived_actual_hours d,
                      k_due_date := derived_due_date clk d)) of
              Inl e \<Rightarrow> Inl e
            | Inr b \<Rightarrow>
                Inr (d(k_actual_hours := derived_actual_hours d,
                       k_due_date := derived_due_date clk d,
                       k_is_overdue \<mapsto> PBool b,
                       k_updated_at \<mapsto> PDatetime (now_updated clk))))"
proof -
  let ?d1 = "d(k_actual_hours := derived_actual_hours d)"
  let ?d2 = "?d1(k_due_date := derived_due_date clk d)"
  have 1: "(if is_status s COMPLETED \<and> \<not> truthy (dict_get d k_actual_hours)
            then d(k_actual_hours \<mapsto> dict_get_default d k_estimated_hours (PFloat 1))
            else d) = ?d1"
    using s by (auto simp: derived_actual_hours_def dict_get_def)
  have 2: "(if is_priority p URGENT \<and> \<not> truthy (dict_get ?d1 k_due_date)
            then ?d1(k_due_date \<mapsto> PDatetime (now_due clk + timedelta_days 1))
            else ?d1) = ?d2"
    using p by (auto simp: derived_due_date_def dict_get_def)
  show ?thesis
    unfolding apply_business_rules_def Let_def
    by (simp only: dict_index_def s p option.case sum.case 1 fun_upd_other key.distinct
        not_False_eq_True 2)
qed

lemma calculate_overdue_status_derived:
  assumes "calculate_overdue_status (now_overdue clk)
             (d(k_actual_hours := derived_actual_hours d,
                k_due_date := derived_due_date clk d)) = Inr b"
  shows "b = derived_is_overdue clk d"
  using assms
  by (auto simp: calculate_overdue_status_def derived_is_overdue_def dict_get_def
      dict_index_def split: if_splits option.splits pyval.splits)

lemma apply_business_rules_InrD:
  assumes "apply_business_rules clk d = Inr d'"
  shows "d' = d(k_actual_hours := derived_actual_hours d,
                k_due_date := derived_due_date clk d,
                k_is_overdue \<mapsto> PBool (derived_is_overdue clk d),
                k_updated_at \<mapsto> PDatetime (now_updated clk))"
    and "d k_status \<noteq> None" and "d k_priority \<noteq> None"
proof -
  from assms obtain s p where s: "d k_status = Some s" and p: "d k_priority = Some p"
    by (auto simp: apply_business_rules_def dict_index_def Let_def
        split: option.splits if_splits)
  then show "d k_status \<noteq> None" and "d k_priority \<noteq> None"
    by simp_all
  from assms obtain b where
    c: "calculate_overdue_status (now_overdue clk)
             (d(k_actual_hours := derived_actual_hours d,
                k_due_date := derived_due_date clk d)) = Inr b"
    and d': "d' = d(k_actual_hours := derived_actual_hours d,
                       k_due_date := derived_due_date clk d,
                       k_is_overdue \<mapsto> PBool b,
                       k_updated_at \<mapsto> PDatetime (now_updated clk))"
    unfolding apply_business_rules_steps [OF s p] by (auto split: sum.splits)
  from c have "b = derived_is_overdue clk d"
    by (rule calculate_overdue_status_derived)
  with d' show "d' = d(k_actual_hours := derived_actual_hours d,
                k_due_date := derived_due_date clk d,
                k_is_overdue \<mapsto> PBool (derived_is_overdue clk d),
                k_updated_at \<mapsto> PDatetime (now_updated clk))"
    by simp
qed

subsection \<open>Urgent tasks without a due date\<close>

lemma apply_business_rules_urgent:
  assumes r: "apply_business_rules clk d = Inr d'"
    and u: "is_priority (dict_get d k_priority) URGENT"
    and n: "dict_get d k_due_date = PNone"
  shows "d' k_due_date = Some (PDatetime (now_due clk + timedelta_days 1))"
    and "now_overdue clk \<le> now_due clk + timedelta_days 1 \<Longrightarrow>
           d' k_is_overdue = Some (PBool False)"
proof -
  have dd: "derived_due_date clk d = Some (PDatetime (now_due clk + timedelta_days 1))"
    using u n by (simp add: derived_due_date_def)
  show "d' k_due_date = Some (PDatetime (now_due clk + timedelta_days 1))"
    by (simp add: apply_business_rules_InrD(1) [OF r] dd)
  assume "now_overdue clk \<le> now_due clk + timedelta_days 1"
  then have "\<not> derived_is_overdue clk d"
    by (simp add: derived_is_overdue_def dd)
  then show "d' k_is_overdue = Some (PBool False)"
    by (simp add: apply_business_rules_InrD(1) [OF r])
qed

text \<open>
  Claim C5. When the priority is \<^verbatim>\<open>urgent\<close> and no due date is set, the rule engine sets
  the due date to its reading of the clock plus one day; the overdue flag it computes next
  is false as long as the clock has not moved by more than a day between the two
  readings. This holds for the dictionary the rules are applied to, for the record a
  create returns, and for the record an update returns when the merged priority is
  \<^verbatim>\<open>urgent\<close> and the merged due date is absent.
\<close>

theorem urgent_without_due_date_is_due_in_one_day:
  "(d k_status \<noteq> None \<and> is_priority (dict_get d k_priority) URGENT
       \<and> dict_get d k_due_date = PNone \<longrightarrow>
      (\<exists>d'. apply_business_rules clk d = Inr d'
            \<and> d' k_due_date = Some (PDatetime (now_due clk + timedelta_days 1))
            \<and> (now_overdue clk \<le> now_due clk + timedelta_days 1 \<longrightarrow>
                 d' k_is_overdue = Some (PBool False))))
   \<and> (valid_TaskCreate task \<and> TaskBase.priority task = URGENT
       \<and> TaskBase.due_date task = None \<longrightarrow>
      (\<exists>t. fst (create_task new_id now_created now_updated' clk task db) = Inr t
           \<and> TaskBase.due_date t = Some (now_due clk + timedelta_days 1)
           \<and> (now_overdue clk \<le> now_due clk + timedelta_days 1 \<longrightarrow> \<not> is_overdue t)))
   \<and> (map_of db task_id = Some d \<and> update_task clk task_id u db = (Inr t, db')
       \<and> is_priority (dict_get (d ++ TaskUpdate_dict_exclude_unset u) k_priority) URGENT
       \<and> dict_get (d ++ TaskUpdate_dict_exclude_unset u) k_due_date = PNone \<longrightarrow>
      TaskBase.due_date t = Some (now_due clk + timedelta_days 1)
      \<and> (now_overdue clk \<le> now_due clk + timedelta_days 1 \<longrightarrow> \<not> is_overdue t))"
proof (intro conjI impI)
  assume a: "d k_status \<noteq> None \<and> is_priority (dict_get d k_priority) URGENT
       \<and> dict_get d k_due_date = PNone"
  then obtain s p where s: "d k_status = Some s" and p: "d k_priority = Some p"
    by (cases "d k_priority") (auto simp: dict_get_def)
  from a have due: "d k_due_date = None \<or> d k_due_date = Some PNone
                \<or> (\<exists>x. d k_due_date = Some (PDatetime x))"
    by (cases "d k_due_date") (auto simp: dict_get_def)
  from apply_business_rules_Inr [OF s p due, of clk]
  obtain d' where r: "apply_business_rules clk d = Inr d'"
    by simp
  show "\<exists>d'. apply_business_rules clk d = Inr d'
            \<and> d' k_due_date = Some (PDatetime (now_due clk + timedelta_days 1))
            \<and> (now_overdue clk \<le> now_due clk + timedelta_days 1 \<longrightarrow>
                 d' k_is_overdue = Some (PBool False))"
    using r apply_business_rules_urgent [OF r] a by simp
next
  assume a: "valid_TaskCreate task \<and> TaskBase.priority task = URGENT
       \<and> TaskBase.due_date task = None"
  then have "fst (create_task new_id now_created now_updated' clk task db)
               = Inr (created_task new_id now_created clk task)"
    by (simp add: create_task_valid)
  with a show "\<exists>t. fst (create_task new_id now_created now_updated' clk task db) = Inr t
           \<and> TaskBase.due_date t = Some (now_due clk + timedelta_days 1)
           \<and> (now_overdue clk \<le> now_due clk + timedelta_days 1 \<longrightarrow> \<not> is_overdue t)"
    by (simp add: created_task_def created_due_date_def spec_is_overdue_def)
next
  assume a: "map_of db task_id = Some d \<and> update_task clk task_id u db = (Inr t, db')
       \<and> is_priority (dict_get (d ++ TaskUpdate_dict_exclude_unset u) k_priority) URGENT
       \<and> dict_get (d ++ TaskUpdate_dict_exclude_unset u) k_due_date = PNone"
  let ?m = "d ++ TaskUpdate_dict_exclude_unset (completion_default d u)"
  from a obtain d1 where r: "apply_business_rules clk ?m = Inr d1" and i: "Task_init d1 = Inr t"
    using update_task_InrD [of db task_id d clk u t db'] by auto
  have same: "?m k_priority = (d ++ TaskUpdate_dict_exclude_unset u) k_priority"
    "?m k_due_date = (d ++ TaskUpdate_dict_exclude_unset u) k_due_date"
    by (simp_all add: merged_lookup completion_default_other)
  from a have u: "is_priority (dict_get ?m k_priority) URGENT"
    and n: "dict_get ?m k_due_date = PNone"
    by (simp_all add: dict_get_def same)
  note U = apply_business_rules_urgent [OF r u n]
  from Task_init_InrD(5) [OF i] U(1)
  show "TaskBase.due_date t = Some (now_due clk + timedelta_days 1)"
    by (simp add: optional_def)
  show "\<not> is_overdue t" if "now_overdue clk \<le> now_due clk + timedelta_days 1"
    using Task_init_InrD(11) [OF i] U(2) [OF that] by (simp add: defaulted_def)
qed

lemma example_update_urgent:
  "fst (update_task example_clock ''c'' example_patch_urgent example_db) =
     Inr \<lparr>TaskBase.title = ''task'', description = None, priority = URGENT,
          estimated_hours = None, due_date = Some 86400000100, id = ''c'', status = PENDING,
          created_at = 30, updated_at = 102, actual_hours = None, is_overdue = False\<rparr>"
proof -
  have m: "map_of example_db ''c'' = Some example_c"
    by (simp add: example_db_def)
  have s: "example_c k_status = Some (PStatus PENDING)"
    by (simp add: example_c_def example_task_def)
  have g: "\<not> (is_status (PStatus PENDING) COMPLETED
              \<and> \<not> is_status (status example_patch_urgent) COMPLETED)"
    by simp
  let ?m = "example_c ++ TaskUpdate_dict_exclude_unset
              (completion_default example_c example_patch_urgent)"
  have l: "?m k_title = Some (PStr ''task'')" "?m k_description = Some PNone"
    "?m k_priority = Some (PPriority URGENT)" "?m k_status = Some (PStatus PENDING)"
    "?m k_estimated_hours = Some PNone" "?m k_due_date = Some PNone"
    "?m k_actual_hours = Some PNone" "?m k_id = Some (PStr ''c'')"
    "?m k_created_at = Some (PDatetime 30)"
    by (simp_all add: merged_lookup completion_default_def example_patch_urgent_def
        example_c_def example_task_def)
  have due: "?m k_due_date = None \<or> ?m k_due_date = Some PNone
                \<or> (\<exists>x. ?m k_due_date = Some (PDatetime x))"
    by (simp add: l)
  note r = apply_business_rules_Inr [OF l(4) l(3) due, of example_clock]
  have d: "derived_actual_hours ?m = Some PNone"
    "derived_due_date example_clock ?m = Some (PDatetime 86400000100)"
    "derived_is_overdue example_clock ?m = False"
    by (simp_all add: derived_actual_hours_def derived_due_date_def derived_is_overdue_def
        dict_get_def l example_clock_def timedelta_days_def)
  have c: "now_updated example_clock = 102"
    by (simp add: example_clock_def)
  show ?thesis
    unfolding update_task_eq [OF m s g] r
    by (simp, rule Task_init_InrI)
      (simp_all add: l d c model_defs)
qed

theorem urgent_without_due_date_is_due_in_one_day_witness:
  "(\<exists>d'. apply_business_rules example_clock example_u = Inr d'
         \<and> d' k_due_date = Some (PDatetime 86400000100)
         \<and> d' k_is_overdue = Some (PBool False))
   \<and> (\<exists>t. fst (create_task ''n'' 100 100 example_clock
                 \<lparr>TaskBase.title = ''t'', description = None, priority = URGENT,
                  estimated_hours = None, due_date = None\<rparr> example_db) = Inr t
          \<and> TaskBase.due_date t = Some 86400000100 \<and> \<not> is_overdue t)
   \<and> (\<exists>t db'. update_task example_clock ''c'' example_patch_urgent example_db = (Inr t, db')
          \<and> TaskBase.due_date t = Some 86400000100 \<and> \<not> is_overdue t)"
proof -
  let ?task = "\<lparr>TaskBase.title = ''t'', description = None, priority = URGENT,
                  estimated_hours = None, due_date = None\<rparr>"
  let ?t = "\<lparr>TaskBase.title = ''task'', description = None, priority = URGENT,
          estimated_hours = None, due_date = Some 86400000100, id = ''c'', status = PENDING,
          created_at = 30, updated_at = 102, actual_hours = None, is_overdue = False\<rparr>"
  let ?db' = "snd (update_task example_clock ''c'' example_patch_urgent example_db)"
  have clock: "now_due example_clock + timedelta_days 1 = 86400000100"
    "now_overdue example_clock \<le> 86400000100"
    by (simp_all add: example_clock_def timedelta_days_def)
  have 1: "example_u k_status \<noteq> None \<and> is_priority (dict_get example_u k_priority) URGENT
       \<and> dict_get example_u k_due_date = PNone"
    by (simp add: example_u_def example_task_def dict_get_def)
  have 2: "valid_TaskCreate ?task \<and> TaskBase.priority ?task = URGENT
       \<and> TaskBase.due_date ?task = None"
    by (simp add: valid_TaskCreate_def)
  have u: "update_task example_clock ''c'' example_patch_urgent example_db = (Inr ?t, ?db')"
    using example_update_urgent by (simp add: prod_eq_iff)
  have 3: "map_of example_db ''c'' = Some example_c
       \<and> is_priority (dict_get (example_c ++ TaskUpdate_dict_exclude_unset example_patch_urgent)
                        k_priority) URGENT
       \<and> dict_get (example_c ++ TaskUpdate_dict_exclude_unset example_patch_urgent) k_due_date
           = PNone"
    by (simp add: example_db_def dict_get_def merged_lookup example_patch_urgent_def)
  note A = urgent_without_due_date_is_due_in_one_day
        [where d = example_u and clk = example_clock and task = ?task and new_id = "''n''"
           and now_created = 100 and now_updated' = 100 and db = example_db
           and task_id = "''c''" and u = example_patch_urgent and t = ?t and db' = ?db']
  note B = urgent_without_due_date_is_due_in_one_day
        [where d = example_c and clk = example_clock and task = ?task and new_id = "''n''"
           and now_created = 100 and now_updated' = 100 and db = example_db
           and task_id = "''c''" and u = example_patch_urgent and t = ?t and db' = ?db']
  from A 1 have a: "\<exists>d'. apply_business_rules example_clock example_u = Inr d'
         \<and> d' k_due_date = Some (PDatetime 86400000100)
         \<and> d' k_is_overdue = Some (PBool False)"
    by (simp add: clock)
  from A 2 have b: "\<exists>t. fst (create_task ''n'' 100 100 example_clock ?task example_db) = Inr t
          \<and> TaskBase.due_date t = Some 86400000100 \<and> \<not> is_overdue t"
    by (simp add: clock)
  from B 3 u have "TaskBase.due_date ?t = Some 86400000100 \<and> \<not> is_overdue ?t"
    by (simp add: clock)
  with u have c: "\<exists>t db'. update_task example_clock ''c'' example_patch_urgent example_db
            = (Inr t, db')
          \<and> TaskBase.due_date t = Some 86400000100 \<and> \<not> is_overdue t"
    by blast
  from a b c show ?thesis by blast
qed

subsection \<open>Merging a patch\<close>

lemma create_task_stored:
  "snd (create_task task_id now_created now_updated' clk task db)
     = db_setitem db task_id (created_dict task_id now_created clk task)"
proof -
  define d0 where "d0 = TaskCreate_dict task ++
            [k_id \<mapsto> PStr task_id,
             k_status \<mapsto> PStatus PENDING,
             k_created_at \<mapsto> PDatetime now_created,
             k_updated_at \<mapsto> PDatetime now_updated',
             k_actual_hours \<mapsto> PNone,
             k_is_overdue \<mapsto> PBool False]"
  have l: "d0 k_title = Some (PStr (TaskBase.title task))"
    "d0 k_description = Some (opt_val PStr (TaskBase.description task))"
    "d0 k_priority = Some (PPriority (TaskBase.priority task))"
    "d0 k_estimated_hours = Some (opt_val PFloat (TaskBase.estimated_hours task))"
    "d0 k_due_date = Some (opt_val PDatetime (TaskBase.due_date task))"
    "d0 k_id = Some (PStr task_id)"
    "d0 k_status = Some (PStatus PENDING)"
    "d0 k_created_at = Some (PDatetime now_created)"
    "d0 k_actual_hours = Some PNone"
    by (simp_all add: d0_def TaskCreate_dict_def)
  have due: "d0 k_due_date = None \<or> d0 k_due_date = Some PNone
                \<or> (\<exists>x. d0 k_due_date = Some (PDatetime x))"
    by (cases "TaskBase.due_date task") (simp_all add: l opt_val_def)
  define d1 where "d1 = d0(k_actual_hours := derived_actual_hours d0,
                  k_due_date := derived_due_date clk d0,
                  k_is_overdue \<mapsto> PBool (derived_is_overdue clk d0),
                  k_updated_at \<mapsto> PDatetime (now_updated clk))"
  have r: "apply_business_rules clk d0 = Inr d1"
    unfolding d1_def using l(7) l(3) due by (rule apply_business_rules_Inr)
  have dd: "derived_due_date clk d0 = Some (opt_val PDatetime (created_due_date clk task))"
    by (cases "TaskBase.due_date task")
      (simp_all add: derived_due_date_def created_due_date_def dict_get_def l opt_val_def)
  have ov: "derived_is_overdue clk d0
              = spec_is_overdue (now_overdue clk) (created_due_date clk task) PENDING"
    by (cases "created_due_date clk task")
      (simp_all add: derived_is_overdue_def dd spec_is_overdue_def opt_val_def dict_get_def l)
  have ah: "derived_actual_hours d0 = Some PNone"
    by (simp add: derived_actual_hours_def dict_get_def l)
  have "d1 k = created_dict task_id now_created clk task k" for k
    by (cases k) (simp_all add: d1_def created_dict_def l dd ov ah)
  then have "d1 = created_dict task_id now_created clk task"
    by (rule ext)
  then show ?thesis
    unfolding create_task_def Let_def d0_def [symmetric] r by simp
qed

lemma update_task_result:
  assumes "map_of db task_id = Some d" and "d k_status = Some s"
    and "\<not> (is_status s COMPLETED \<and> \<not> is_status (status u) COMPLETED)"
    and "m = d ++ TaskUpdate_dict_exclude_unset (completion_default d u)"
    and "m k_status = Some s'" and "m k_priority = Some p'"
    and "m k_due_date = None \<or> m k_due_date = Some PNone
           \<or> (\<exists>x. m k_due_date = Some (PDatetime x))"
    and "d' = m(k_actual_hours := derived_actual_hours m,
                k_due_date := derived_due_date clk m,
                k_is_overdue \<mapsto> PBool (derived_is_overdue clk m),
                k_updated_at \<mapsto> PDatetime (now_updated clk))"
  shows "update_task clk task_id u db = (Task_init d', db_setitem db task_id d')"
  unfolding update_task_eq [OF assms(1-3)] assms(4) [symmetric]
    apply_business_rules_Inr [OF assms(5-7)] assms(8) [symmetric]
  by simp

lemma map_of_db_setitem: "map_of (db_setitem db k v) k = Some v"
  by (induction db) auto

lemma calculate_overdue_status_errors:
  "calculate_overdue_status now d = Inl e \<Longrightarrow> e = TypeError \<or> (\<exists>k. e = KeyError k)"
  by (auto simp: calculate_overdue_status_def dict_index_def
      split: if_splits option.splits pyval.splits)

lemma apply_business_rules_errors:
  assumes "apply_business_rules clk d = Inl e"
  shows "e = TypeError \<or> (\<exists>k. e = KeyError k)"
proof (cases "d k_status")
  case None
  with assms show ?thesis
    by (auto simp: apply_business_rules_def dict_index_def)
next
  case s: (Some s)
  show ?thesis
  proof (cases "d k_priority")
    case None
    with assms s show ?thesis
      by (auto simp: apply_business_rules_def dict_index_def Let_def split: if_splits)
  next
    case (Some p)
    from assms show ?thesis
      unfolding apply_business_rules_steps [OF s Some]
      by (auto split: sum.splits dest: calculate_overdue_status_errors)
  qed
qed

lemma update_task_stored:
  assumes m: "map_of db task_id = Some d" and u: "update_task clk task_id u db = (r, db')"
    and n: "\<not> rejected r"
  shows "\<exists>d'. apply_business_rules clk
                 (d ++ TaskUpdate_dict_exclude_unset (completion_default d u)) = Inr d'
              \<and> r = Task_init d' \<and> map_of db' task_id = Some d'"
proof -
  from m u n obtain s where s: "d k_status = Some s"
    by (cases "d k_status") (auto simp: update_task_def dict_index_def rejected_def)
  from m u n s have g: "\<not> (is_status s COMPLETED \<and> \<not> is_status (status u) COMPLETED)"
    by (auto simp: update_task_def dict_index_def rejected_def split: if_splits)
  show ?thesis
    using u n unfolding update_task_eq [OF m s g]
    by (auto simp: rejected_def map_of_db_setitem split: sum.splits py_error.splits
        dest: apply_business_rules_errors)
qed

lemma optional_null: "x = None \<or> x = Some PNone \<Longrightarrow> optional chk x = Inr None"
  by (auto simp: optional_def)

lemma TaskUpdate_init_InrE:
  assumes "TaskUpdate_init now payload = Inr u"
  obtains t de p s e du du' a where
    "optional (field_str 1 (Some 100)) (payload k_title) = Inr t"
    "optional (field_str 0 (Some 500)) (payload k_description) = Inr de"
    "optional field_priority (payload k_priority) = Inr p"
    "optional field_status (payload k_status) = Inr s"
    "optional (field_float (Some (1 / 10)) (Some 100)) (payload k_estimated_hours) = Inr e"
    "optional field_datetime_input (payload k_due_date) = Inr du"
    "due_date_validation now du = Inr du'"
    "optional (field_float (Some 0) (Some 200)) (payload k_actual_hours) = Inr a"
    "u = \<lparr>title = opt_val PStr t, description = opt_val PStr de,
          priority = opt_val PPriority p, status = opt_val PStatus s,
          estimated_hours = opt_val PFloat e, due_date = opt_val PDatetime du',
          actual_hours = opt_val PFloat a,
          fields_set = set (filter (\<lambda>k. payload k \<noteq> None) TaskUpdate_fields)\<rparr>"
  using assms unfolding TaskUpdate_init_def Let_def
  by (auto split: sum.splits)

lemma due_date_validation_None: "due_date_validation now None = Inr b \<Longrightarrow> b = None"
  by (simp add: due_date_validation_def)

lemma TaskUpdate_init_null:
  assumes "TaskUpdate_init now payload = Inr u"
  shows "payload k_title = None \<or> payload k_title = Some PNone \<Longrightarrow> title u = PNone"
    and "payload k_description = None \<or> payload k_description = Some PNone
           \<Longrightarrow> description u = PNone"
    and "payload k_priority = None \<or> payload k_priority = Some PNone \<Longrightarrow> priority u = PNone"
    and "payload k_status = None \<or> payload k_status = Some PNone \<Longrightarrow> status u = PNone"
    and "payload k_estimated_hours = None \<or> payload k_estimated_hours = Some PNone
           \<Longrightarrow> estimated_hours u = PNone"
    and "payload k_due_date = None \<or> payload k_due_date = Some PNone \<Longrightarrow> due_date u = PNone"
    and "payload k_actual_hours = None \<or> payload k_actual_hours = Some PNone
           \<Longrightarrow> actual_hours u = PNone"
proof -
  from assms obtain t de p s e du du' a where
    o: "optional (field_str 1 (Some 100)) (payload k_title) = Inr t"
    "optional (field_str 0 (Some 500)) (payload k_description) = Inr de"
    "optional field_priority (payload k_priority) = Inr p"
    "optional field_status (payload k_status) = Inr s"
    "optional (field_float (Some (1 / 10)) (Some 100)) (payload k_estimated_hours) = Inr e"
    "optional field_datetime_input (payload k_due_date) = Inr du"
    "due_date_validation now du = Inr du'"
    "optional (field_float (Some 0) (Some 200)) (payload k_actual_hours) = Inr a"
    and u: "u = \<lparr>title = opt_val PStr t, description = opt_val PStr de,
          priority = opt_val PPriority p, status = opt_val PStatus s,
          estimated_hours = opt_val PFloat e, due_date = opt_val PDatetime du',
          actual_hours = opt_val PFloat a,
          fields_set = set (filter (\<lambda>k. payload k \<noteq> None) TaskUpdate_fields)\<rparr>"
    by (rule TaskUpdate_init_InrE)
  show "title u = PNone" if "payload k_title = None \<or> payload k_title = Some PNone"
    using o(1) optional_null [OF that, of "field_str 1 (Some 100)"] by (simp add: u opt_val_def)
  show "description u = PNone"
    if "payload k_description = None \<or> payload k_description = Some PNone"
    using o(2) optional_null [OF that, of "field_str 0 (Some 500)"] by (simp add: u opt_val_def)
  show "priority u = PNone" if "payload k_priority = None \<or> payload k_priority = Some PNone"
    using o(3) optional_null [OF that, of field_priority] by (simp add: u opt_val_def)
  show "status u = PNone" if "payload k_status = None \<or> payload k_status = Some PNone"
    using o(4) optional_null [OF that, of field_status] by (simp add: u opt_val_def)
  show "estimated_hours u = PNone"
    if "payload k_estimated_hours = None \<or> payload k_estimated_hours = Some PNone"
    using o(5) optional_null [OF that, of "field_float (Some (1 / 10)) (Some 100)"]
    by (simp add: u opt_val_def)
  show "due_date u = PNone" if "payload k_due_date = None \<or> payload k_due_date = Some PNone"
    using o(6,7) optional_null [OF that, of field_datetime_input]
    by (auto simp: u opt_val_def dest: due_date_validation_None)
  show "actual_hours u = PNone"
    if "payload k_actual_hours = None \<or> payload k_actual_hours = Some PNone"
    using o(8) optional_null [OF that, of "field_float (Some 0) (Some 200)"]
    by (simp add: u opt_val_def)
qed

lemma TaskUpdate_init_fields_set:
  assumes "TaskUpdate_init now payload = Inr u"
  shows "fields_set u = set (filter (\<lambda>k. payload k \<noteq> None) TaskUpdate_fields)"
  using assms by (rule TaskUpdate_init_InrE) simp

lemma TaskUpdate_init_status_set:
  assumes "TaskUpdate_init now payload = Inr u" and "status u \<noteq> PNone"
  shows "k_status \<in> fields_set u"
proof -
  from TaskUpdate_init_null(4) [OF assms(1)] assms(2) have "payload k_status \<noteq> None"
    by (cases "payload k_status") auto
  then show ?thesis
    by (simp add: TaskUpdate_init_fields_set [OF assms(1)] TaskUpdate_fields_def)
qed

text \<open>
  Claim C10. An update that is not rejected merges exactly the fields the request body
  supplies. For title, description, priority, status and estimated hours: a field
  supplied as \<^verbatim>\<open>null\<close> is \<^verbatim>\<open>None\<close> in the stored record afterwards, and a field the body omits
  keeps its stored value. The same holds for the due date unless the resulting priority
  is \<^verbatim>\<open>urgent\<close>, and for the actual hours unless the resulting status is
  \<^verbatim>\<open>completed\<close>, the two cases in which the rule engine may fill the field afterwards.
  The id and the creation time are never touched.
\<close>

theorem update_merges_supplied_fields_only:
  assumes i: "TaskUpdate_init now payload = Inr u"
    and m: "map_of db task_id = Some d"
    and r: "update_task clk task_id u db = (r, db')"
    and n: "\<not> rejected r"
  shows "\<exists>d'. map_of db' task_id = Some d'
     \<and> (\<forall>k \<in> {k_title, k_description, k_priority, k_status, k_estimated_hours}.
           (payload k = Some PNone \<longrightarrow> d' k = Some PNone)
           \<and> (payload k = None \<longrightarrow> d' k = d k))
     \<and> (\<not> is_priority (dict_get d' k_priority) URGENT \<longrightarrow>
           (payload k_due_date = Some PNone \<longrightarrow> d' k_due_date = Some PNone)
           \<and> (payload k_due_date = None \<longrightarrow> d' k_due_date = d k_due_date))
     \<and> (\<not> is_status (dict_get d' k_status) COMPLETED \<longrightarrow>
           (payload k_actual_hours = Some PNone \<longrightarrow> d' k_actual_hours = Some PNone)
           \<and> (payload k_actual_hours = None \<longrightarrow> d' k_actual_hours = d k_actual_hours))
     \<and> d' k_id = d k_id \<and> d' k_created_at = d k_created_at"
proof -
  let ?u = "completion_default d u"
  let ?m = "d ++ TaskUpdate_dict_exclude_unset ?u"
  from update_task_stored [OF m r n] obtain d' where
    a: "apply_business_rules clk ?m = Inr d'" and s: "map_of db' task_id = Some d'"
    by blast
  note d' = apply_business_rules_InrD(1) [OF a]
  note f = TaskUpdate_init_fields_set [OF i]
  note z = TaskUpdate_init_null [OF i]
  have plain: "d' k_title = ?m k_title" "d' k_description = ?m k_description"
    "d' k_priority = ?m k_priority" "d' k_status = ?m k_status"
    "d' k_estimated_hours = ?m k_estimated_hours" "d' k_id = ?m k_id"
    "d' k_created_at = ?m k_created_at"
    by (subst d', simp)+
  have k1: "(payload k_title = Some PNone \<longrightarrow> d' k_title = Some PNone)
           \<and> (payload k_title = None \<longrightarrow> d' k_title = d k_title)"
    using z(1)
    by (auto simp: plain merged_lookup completion_default_other f TaskUpdate_fields_def)
  have k2: "(payload k_description = Some PNone \<longrightarrow> d' k_description = Some PNone)
           \<and> (payload k_description = None \<longrightarrow> d' k_description = d k_description)"
    using z(2)
    by (auto simp: plain merged_lookup completion_default_other f TaskUpdate_fields_def)
  have k3: "(payload k_priority = Some PNone \<longrightarrow> d' k_priority = Some PNone)
           \<and> (payload k_priority = None \<longrightarrow> d' k_priority = d k_priority)"
    using z(3)
    by (auto simp: plain merged_lookup completion_default_other f TaskUpdate_fields_def)
  have k4: "(payload k_status = Some PNone \<longrightarrow> d' k_status = Some PNone)
           \<and> (payload k_status = None \<longrightarrow> d' k_status = d k_status)"
    using z(4)
    by (auto simp: plain merged_lookup completion_default_other f TaskUpdate_fields_def)
  have k5: "(payload k_estimated_hours = Some PNone \<longrightarrow> d' k_estimated_hours = Some PNone)
           \<and> (payload k_estimated_hours = None
                \<longrightarrow> d' k_estimated_hours = d k_estimated_hours)"
    using z(5)
    by (auto simp: plain merged_lookup completion_default_other f TaskUpdate_fields_def)
  have 1: "\<forall>k \<in> {k_title, k_description, k_priority, k_status, k_estimated_hours}.
           (payload k = Some PNone \<longrightarrow> d' k = Some PNone)
           \<and> (payload k = None \<longrightarrow> d' k = d k)"
    using k1 k2 k3 k4 k5 by blast
  have due: "d' k_due_date = ?m k_due_date" if "\<not> is_priority (dict_get d' k_priority) URGENT"
    using that by (subst d') (simp add: derived_due_date_def dict_get_def plain)
  have 2: "(payload k_due_date = Some PNone \<longrightarrow> d' k_due_date = Some PNone)
           \<and> (payload k_due_date = None \<longrightarrow> d' k_due_date = d k_due_date)"
    if "\<not> is_priority (dict_get d' k_priority) URGENT"
    using z(6)
    by (auto simp: due [OF that] merged_lookup completion_default_other f TaskUpdate_fields_def)
  have 3: "(payload k_actual_hours = Some PNone \<longrightarrow> d' k_actual_hours = Some PNone)
           \<and> (payload k_actual_hours = None \<longrightarrow> d' k_actual_hours = d k_actual_hours)"
    if c: "\<not> is_status (dict_get d' k_status) COMPLETED"
  proof -
    have "?u = u"
    proof (rule ccontr)
      assume "?u \<noteq> u"
      then have st: "is_status (status u) COMPLETED"
        by (auto simp: completion_default_def split: if_splits)
      then have "status u \<noteq> PNone" by auto
      then have "k_status \<in> fields_set u"
        by (rule TaskUpdate_init_status_set [OF i])
      then have "dict_get d' k_status = status u"
        by (simp add: dict_get_def plain merged_lookup completion_default_other)
      with st c show False by simp
    qed
    moreover have "d' k_actual_hours = ?m k_actual_hours"
      using c by (subst d') (simp add: derived_actual_hours_def dict_get_def plain)
    ultimately show ?thesis
      using z(7) by (auto simp: merged_lookup f TaskUpdate_fields_def)
  qed
  have 4: "d' k_id = d k_id \<and> d' k_created_at = d k_created_at"
    by (simp add: plain merged_lookup)
  show ?thesis
    using s 1 2 3 4 by (intro exI [of _ d']) blast
qed

lemma example_update_clear:
  "fst (update_task example_clock ''c'' example_patch_clear example_db) =
     Inr \<lparr>TaskBase.title = ''task'', description = None, priority = LOW,
          estimated_hours = None, due_date = None, id = ''c'', status = PENDING,
          created_at = 30, updated_at = 102, actual_hours = None, is_overdue = False\<rparr>"
proof -
  have m: "map_of example_db ''c'' = Some example_c"
    by (simp add: example_db_def)
  have s: "example_c k_status = Some (PStatus PENDING)"
    by (simp add: example_c_def example_task_def)
  have g: "\<not> (is_status (PStatus PENDING) COMPLETED
              \<and> \<not> is_status (status example_patch_clear) COMPLETED)"
    by simp
  let ?m = "example_c ++ TaskUpdate_dict_exclude_unset
              (completion_default example_c example_patch_clear)"
  have l: "?m k_title = Some (PStr ''task'')" "?m k_description = Some PNone"
    "?m k_priority = Some (PPriority LOW)" "?m k_status = Some (PStatus PENDING)"
    "?m k_estimated_hours = Some PNone" "?m k_due_date = Some PNone"
    "?m k_actual_hours = Some PNone" "?m k_id = Some (PStr ''c'')"
    "?m k_created_at = Some (PDatetime 30)"
    by (simp_all add: merged_lookup completion_default_def example_patch_clear_def
        example_c_def example_task_def)
  have due: "?m k_due_date = None \<or> ?m k_due_date = Some PNone
                \<or> (\<exists>x. ?m k_due_date = Some (PDatetime x))"
    by (simp add: l)
  note r = apply_business_rules_Inr [OF l(4) l(3) due, of example_clock]
  have d: "derived_actual_hours ?m = Some PNone"
    "derived_due_date example_clock ?m = Some PNone"
    "derived_is_overdue example_clock ?m = False"
    by (simp_all add: derived_actual_hours_def derived_due_date_def derived_is_overdue_def
        dict_get_def l)
  have c: "now_updated example_clock = 102"
    by (simp add: example_clock_def)
  show ?thesis
    unfolding update_task_eq [OF m s g] r
    by (simp, rule Task_init_InrI)
      (simp_all add: l d c model_defs)
qed

theorem update_merges_supplied_fields_only_witness:
  "TaskUpdate_init 100 [k_due_date \<mapsto> PNone] = Inr example_patch_clear
   \<and> map_option (\<lambda>d. (d k_title, d k_due_date)) (map_of example_db ''c'')
       = Some (Some (PStr ''task''), Some (PDatetime 60))
   \<and> (\<exists>d'. map_of (snd (update_task example_clock ''c'' example_patch_clear example_db)) ''c''
              = Some d'
            \<and> d' k_title = Some (PStr ''task'') \<and> d' k_due_date = Some PNone)"
proof -
  let ?payload = "[k_due_date \<mapsto> PNone]"
  let ?r = "fst (update_task example_clock ''c'' example_patch_clear example_db)"
  let ?db' = "snd (update_task example_clock ''c'' example_patch_clear example_db)"
  have i: "TaskUpdate_init 100 ?payload = Inr example_patch_clear"
    by (simp add: TaskUpdate_init_def model_defs due_date_validation_def
        TaskUpdate_fields_def example_patch_clear_def)
  have m: "map_of example_db ''c'' = Some example_c"
    by (simp add: example_db_def)
  have c: "example_c k_title = Some (PStr ''task'')"
    "example_c k_due_date = Some (PDatetime 60)"
    "example_c k_priority = Some (PPriority LOW)"
    by (simp_all add: example_c_def example_task_def)
  have r: "update_task example_clock ''c'' example_patch_clear example_db = (?r, ?db')"
    by simp
  have n: "\<not> rejected ?r"
    by (simp add: example_update_clear rejected_def)
  from update_merges_supplied_fields_only [OF i m r n]
  obtain d' where d': "map_of ?db' ''c'' = Some d'"
    and t: "d' k_title = example_c k_title" and p: "d' k_priority = example_c k_priority"
    and due: "\<not> is_priority (dict_get d' k_priority) URGENT \<Longrightarrow> d' k_due_date = Some PNone"
    by auto
  from due p have "d' k_due_date = Some PNone"
    by (simp add: dict_get_def c)
  with d' t show ?thesis
    using i m by (auto simp: c)
qed

subsection \<open>Completing a task without an estimate\<close>

lemma example_new_created:
  "post_tasks 90 ''n'' 100 100 example_clock example_new [] =
     (Inr \<lparr>TaskBase.title = ''t'', description = None, priority = MEDIUM,
           estimated_hours = None, due_date = None, id = ''n'', status = PENDING,
           created_at = 100, updated_at = 102, actual_hours = None, is_overdue = False\<rparr>,
      [(''n'', created_dict ''n'' 100 example_clock
                 \<lparr>TaskBase.title = ''t'', description = None, priority = MEDIUM,
                  estimated_hours = None, due_date = None\<rparr>)])"
proof -
  let ?task = "\<lparr>TaskBase.title = ''t'', description = None, priority = MEDIUM,
                  estimated_hours = None, due_date = None\<rparr>"
  have i: "TaskCreate_init 90 example_new = Inr ?task"
    by (simp add: TaskCreate_init_def example_new_def model_defs due_date_must_be_future_def)
  have v: "valid_TaskCreate ?task"
    by (simp add: valid_TaskCreate_def)
  have "fst (create_task ''n'' 100 100 example_clock ?task []) =
          Inr (created_task ''n'' 100 example_clock ?task)"
    using v by (rule create_task_valid)
  moreover have "snd (create_task ''n'' 100 100 example_clock ?task []) =
          [(''n'', created_dict ''n'' 100 example_clock ?task)]"
    by (simp add: create_task_stored)
  ultimately show ?thesis
    by (simp add: post_tasks_def i prod_eq_iff created_task_def created_due_date_def
        spec_is_overdue_def example_clock_def)
qed

text \<open>
  Claim C1. The claim is that a task completed with neither actual hours nor estimated
  hours gets actual hours 1.0. The code, run on that input, gives something else: a task
  is created from a body that holds a title only, and is then completed by a body that
  holds \<^verbatim>\<open>status = completed\<close> only. The record returned has no actual hours at all. The
  dictionary of a task always holds the key \<^verbatim>\<open>estimated_hours\<close> (here with the value
  \<^verbatim>\<open>None\<close>), so \<^verbatim>\<open>task_data.get('estimated_hours', 1.0)\<close> returns \<^verbatim>\<open>None\<close> and never
  the default.
\<close>

theorem completing_without_estimate_leaves_actual_hours_unset:
  "fst (put_tasks 200 example_clock ''n'' example_complete
          (snd (post_tasks 90 ''n'' 100 100 example_clock example_new []))) =
     Inr \<lparr>TaskBase.title = ''t'', description = None, priority = MEDIUM,
          estimated_hours = None, due_date = None, id = ''n'', status = COMPLETED,
          created_at = 100, updated_at = 102, actual_hours = None, is_overdue = False\<rparr>"
proof -
  let ?task = "\<lparr>TaskBase.title = ''t'', description = None, priority = MEDIUM,
                  estimated_hours = None, due_date = None\<rparr>"
  let ?d = "created_dict ''n'' 100 example_clock ?task"
  let ?u = "\<lparr>title = PNone, description = PNone, priority = PNone,
             status = PStatus COMPLETED, estimated_hours = PNone, due_date = PNone,
             actual_hours = PNone, fields_set = {k_status}\<rparr>"
  have i: "TaskUpdate_init 200 example_complete = Inr ?u"
    by (simp add: TaskUpdate_init_def example_complete_def model_defs due_date_validation_def
        TaskUpdate_fields_def)
  have m: "map_of [(''n'', ?d)] ''n'' = Some ?d"
    by simp
  have c: "?d k_title = Some (PStr ''t'')" "?d k_description = Some PNone"
    "?d k_priority = Some (PPriority MEDIUM)" "?d k_status = Some (PStatus PENDING)"
    "?d k_estimated_hours = Some PNone" "?d k_due_date = Some PNone"
    "?d k_actual_hours = Some PNone" "?d k_id = Some (PStr ''n'')"
    "?d k_created_at = Some (PDatetime 100)"
    by (simp_all add: created_dict_def created_due_date_def opt_val_def)
  have g: "\<not> (is_status (PStatus PENDING) COMPLETED \<and> \<not> is_status (status ?u) COMPLETED)"
    by simp
  have cd: "completion_default ?d ?u =
              ?u\<lparr>actual_hours := PNone, fields_set := {k_actual_hours, k_status}\<rparr>"
    by (simp add: completion_default_def dict_get_def dict_get_default_def c)
  let ?m = "?d ++ TaskUpdate_dict_exclude_unset (completion_default ?d ?u)"
  have l: "?m k_title = Some (PStr ''t'')" "?m k_description = Some PNone"
    "?m k_priority = Some (PPriority MEDIUM)" "?m k_status = Some (PStatus COMPLETED)"
    "?m k_estimated_hours = Some PNone" "?m k_due_date = Some PNone"
    "?m k_actual_hours = Some PNone" "?m k_id = Some (PStr ''n'')"
    "?m k_created_at = Some (PDatetime 100)"
    unfolding cd by (simp_all add: merged_lookup c)
  have due: "?m k_due_date = None \<or> ?m k_due_date = Some PNone
                \<or> (\<exists>x. ?m k_due_date = Some (PDatetime x))"
    by (simp add: l)
  note r = apply_business_rules_Inr [OF l(4) l(3) due, of example_clock]
  have d: "derived_actual_hours ?m = Some PNone"
    "derived_due_date example_clock ?m = Some PNone"
    "derived_is_overdue example_clock ?m = False"
    by (simp_all add: derived_actual_hours_def derived_due_date_def derived_is_overdue_def
        dict_get_def dict_get_default_def l)
  have n: "now_updated example_clock = 102"
    by (simp add: example_clock_def)
  have "fst (update_task example_clock ''n'' ?u [(''n'', ?d)]) =
     Inr \<lparr>TaskBase.title = ''t'', description = None, priority = MEDIUM,
          estimated_hours = None, due_date = None, id = ''n'', status = COMPLETED,
          created_at = 100, updated_at = 102, actual_hours = None, is_overdue = False\<rparr>"
    unfolding update_task_eq [OF m c(4) g] r
    by (simp, rule Task_init_InrI)
      (simp_all add: l d n model_defs)
  then show ?thesis
    by (simp add: example_new_created put_tasks_def i)
qed

subsection \<open>Zero actual hours on completion\<close>

text \<open>
  Claim C9, as amended. An update patches the status of a task to \<^verbatim>\<open>completed\<close>, and the
  actual hours are 0: either the patch supplies 0, or the record holds 0 and the patch
  supplies no actual hours. The 0 does not count as a value, and the actual hours are
  overwritten by estimated hours, provided the estimate used is present. The estimate
  used is the stored one, with one exception: when the patch supplies estimated hours too
  and the defaulting of \<^verbatim>\<open>update_task\<close> (lines 141 to 143) does not apply, because the task
  is completed already or its stored actual hours are a non-zero value, it is the
  estimate of the patch. Nothing is said here about an estimate that is absent.
\<close>

theorem zero_actual_hours_replaced_by_estimate:
  assumes i: "TaskUpdate_init now payload = Inr u"
    and m: "map_of db task_id = Some d"
    and c: "is_status (status u) COMPLETED"
    and z: "actual_hours u = PFloat 0
            \<or> (payload k_actual_hours = None \<and> dict_get d k_actual_hours = PFloat 0)"
    and e: "(if (is_status (dict_get d k_status) COMPLETED \<or> truthy (dict_get d k_actual_hours))
                \<and> payload k_estimated_hours \<noteq> None
             then estimated_hours u else dict_get d k_estimated_hours) = PFloat e"
    and e0: "e \<noteq> 0"
    and r: "update_task clk task_id u db = (r, db')"
    and n: "\<not> rejected r"
  shows "\<exists>d'. map_of db' task_id = Some d' \<and> d' k_actual_hours = Some (PFloat e)
              \<and> (\<forall>t. r = Inr t \<longrightarrow> Task.actual_hours t = Some e)"
proof -
  let ?u = "completion_default d u"
  let ?m = "d ++ TaskUpdate_dict_exclude_unset ?u"
  from update_task_stored [OF m r n] obtain d' where
    a: "apply_business_rules clk ?m = Inr d'" and t: "r = Task_init d'"
    and st: "map_of db' task_id = Some d'"
    by blast
  note d' = apply_business_rules_InrD(1) [OF a]
  note f = TaskUpdate_init_fields_set [OF i]
  note nl = TaskUpdate_init_null [OF i]
  from c have "status u \<noteq> PNone" by auto
  then have ks: "k_status \<in> fields_set u"
    by (rule TaskUpdate_init_status_set [OF i])
  then have ms: "dict_get ?m k_status = status u"
    by (simp add: dict_get_def merged_lookup completion_default_other)
  have pa: "payload k_actual_hours \<noteq> None" if "actual_hours u = PFloat 0"
    using nl(7) that by (cases "payload k_actual_hours") auto
  have falsy: "\<not> truthy (actual_hours u)"
    using z nl(7) by auto
  have ma: "?m k_actual_hours = Some (PFloat e) \<or>
            (\<not> truthy (dict_get ?m k_actual_hours) \<and> ?m k_estimated_hours = Some (PFloat e))"
  proof (cases "is_status (dict_get d k_status) COMPLETED \<or> truthy (dict_get d k_actual_hours)")
    case True
    then have u: "?u = u"
      by (auto simp: completion_default_def)
    have "dict_get ?m k_actual_hours = PFloat 0"
      using z
    proof
      assume a0: "actual_hours u = PFloat 0"
      then have "k_actual_hours \<in> fields_set u"
        using pa by (simp add: f TaskUpdate_fields_def)
      then show ?thesis
        by (simp add: u dict_get_def merged_lookup a0)
    next
      assume "payload k_actual_hours = None \<and> dict_get d k_actual_hours = PFloat 0"
      then show ?thesis
        by (simp add: u dict_get_def merged_lookup f TaskUpdate_fields_def)
    qed
    moreover have "?m k_estimated_hours = Some (PFloat e)"
      using e True
      by (cases "d k_estimated_hours")
        (auto simp: u merged_lookup f TaskUpdate_fields_def dict_get_def split: if_splits)
    ultimately show ?thesis by simp
  next
    case False
    with e have "dict_get d k_estimated_hours = PFloat e"
      by simp
    then have de: "d k_estimated_hours = Some (PFloat e)"
      by (cases "d k_estimated_hours") (simp_all add: dict_get_def)
    have "?u = u\<lparr>actual_hours := PFloat e,
                  fields_set := insert k_actual_hours (fields_set u)\<rparr>"
      using False falsy c
      by (simp add: completion_default_def dict_get_default_def de)
    then have "?m k_actual_hours = Some (PFloat e)"
      by (simp add: merged_lookup)
    then show ?thesis by simp
  qed
  have cm: "is_status (dict_get ?m k_status) COMPLETED"
    using c by (simp only: ms)
  have "derived_actual_hours ?m = Some (PFloat e)"
    using ma
  proof
    assume x: "?m k_actual_hours = Some (PFloat e)"
    then have "truthy (dict_get ?m k_actual_hours)"
      using e0 by (simp only: dict_get_def option.case truthy.simps) simp
    then show ?thesis
      by (simp only: derived_actual_hours_def x) simp
  next
    assume x: "\<not> truthy (dict_get ?m k_actual_hours)
                 \<and> ?m k_estimated_hours = Some (PFloat e)"
    then have "dict_get_default ?m k_estimated_hours (PFloat 1) = PFloat e"
      by (simp only: dict_get_default_def option.case)
    with x cm show ?thesis
      by (simp only: derived_actual_hours_def) simp
  qed
  then have da: "d' k_actual_hours = Some (PFloat e)"
    by (subst d') simp
  have "Task.actual_hours t = Some e" if "r = Inr t" for t
  proof -
    from that t have "Task_init d' = Inr t" by simp
    from Task_init_InrD(10) [OF this] show ?thesis
      by (simp add: da optional_def)
  qed
  with st da show ?thesis by blast
qed

lemma example_worked_eq: "example_worked = [(''n'', example_worked_dict)]"
proof -
  let ?task = "\<lparr>TaskBase.title = ''t'', description = None, priority = MEDIUM,
                  estimated_hours = Some 5, due_date = None\<rparr>"
  let ?d = "created_dict ''n'' 100 example_clock ?task"
  let ?u = "\<lparr>title = PNone, description = PNone, priority = PNone, status = PNone,
             estimated_hours = PNone, due_date = PNone, actual_hours = PFloat 3,
             fields_set = {k_actual_hours}\<rparr>"
  have i0: "TaskCreate_init 90 example_estimated = Inr ?task"
    by (simp add: TaskCreate_init_def example_estimated_def model_defs
        due_date_must_be_future_def)
  have db1: "snd (post_tasks 90 ''n'' 100 100 example_clock example_estimated [])
               = [(''n'', ?d)]"
    by (simp add: post_tasks_def i0 create_task_stored)
  have i: "TaskUpdate_init 200 example_hours = Inr ?u"
    by (simp add: TaskUpdate_init_def example_hours_def model_defs due_date_validation_def
        TaskUpdate_fields_def)
  have m: "map_of [(''n'', ?d)] ''n'' = Some ?d"
    by simp
  have c: "?d k_title = Some (PStr ''t'')" "?d k_description = Some PNone"
    "?d k_priority = Some (PPriority MEDIUM)" "?d k_status = Some (PStatus PENDING)"
    "?d k_estimated_hours = Some (PFloat 5)" "?d k_due_date = Some PNone"
    "?d k_actual_hours = Some PNone" "?d k_id = Some (PStr ''n'')"
    "?d k_created_at = Some (PDatetime 100)"
    by (simp_all add: created_dict_def created_due_date_def opt_val_def)
  have g: "\<not> (is_status (PStatus PENDING) COMPLETED \<and> \<not> is_status (status ?u) COMPLETED)"
    by simp
  have cd: "completion_default ?d ?u = ?u"
    by (simp add: completion_default_def)
  define mm where "mm = ?d ++ TaskUpdate_dict_exclude_unset (completion_default ?d ?u)"
  have l: "mm k_title = Some (PStr ''t'')" "mm k_description = Some PNone"
    "mm k_priority = Some (PPriority MEDIUM)" "mm k_status = Some (PStatus PENDING)"
    "mm k_estimated_hours = Some (PFloat 5)" "mm k_due_date = Some PNone"
    "mm k_actual_hours = Some (PFloat 3)" "mm k_id = Some (PStr ''n'')"
    "mm k_created_at = Some (PDatetime 100)"
    unfolding mm_def cd by (simp_all add: merged_lookup c)
  have due: "mm k_due_date = None \<or> mm k_due_date = Some PNone
                \<or> (\<exists>x. mm k_due_date = Some (PDatetime x))"
    by (simp add: l)
  define d2 where "d2 = mm(k_actual_hours := derived_actual_hours mm,
                k_due_date := derived_due_date example_clock mm,
                k_is_overdue \<mapsto> PBool (derived_is_overdue example_clock mm),
                k_updated_at \<mapsto> PDatetime (now_updated example_clock))"
  have d: "derived_actual_hours mm = Some (PFloat 3)"
    "derived_due_date example_clock mm = Some PNone"
    "derived_is_overdue example_clock mm = False"
    by (simp_all add: derived_actual_hours_def derived_due_date_def derived_is_overdue_def
        dict_get_def dict_get_default_def l)
  have n: "now_updated example_clock = 102"
    by (simp add: example_clock_def)
  have "d2 k = example_worked_dict k" for k
    by (cases k) (simp_all add: d2_def example_worked_dict_def l d n)
  then have d2: "d2 = example_worked_dict"
    by (rule ext)
  have "update_task example_clock ''n'' ?u [(''n'', ?d)]
          = (Task_init d2, db_setitem [(''n'', ?d)] ''n'' d2)"
    using m c(4) g mm_def l(4) l(3) due d2_def by (rule update_task_result)
  then show ?thesis
    by (simp add: example_worked_def db1 put_tasks_def i d2)
qed

lemma example_worked_lookup:
  "example_worked_dict k_title = Some (PStr ''t'')"
  "example_worked_dict k_description = Some PNone"
  "example_worked_dict k_priority = Some (PPriority MEDIUM)"
  "example_worked_dict k_status = Some (PStatus PENDING)"
  "example_worked_dict k_estimated_hours = Some (PFloat 5)"
  "example_worked_dict k_due_date = Some PNone"
  "example_worked_dict k_actual_hours = Some (PFloat 3)"
  "example_worked_dict k_id = Some (PStr ''n'')"
  "example_worked_dict k_created_at = Some (PDatetime 100)"
  by (simp_all add: example_worked_dict_def)

lemma example_worked_completed:
  assumes u: "u = \<lparr>title = PNone, description = PNone, priority = PNone,
             status = PStatus COMPLETED, estimated_hours = x, due_date = PNone,
             actual_hours = PFloat 0, fields_set = fs\<rparr>"
    and fs: "fs = {k_status, k_actual_hours} \<and> est = 5
             \<or> fs = {k_status, k_estimated_hours, k_actual_hours} \<and> x = PFloat est"
    and est: "1 / 10 \<le> est" "est \<le> 100"
  shows "fst (update_task example_clock ''n'' u example_worked) =
     Inr \<lparr>TaskBase.title = ''t'', description = None, priority = MEDIUM,
          estimated_hours = Some est, due_date = None, id = ''n'', status = COMPLETED,
          created_at = 100, updated_at = 102, actual_hours = Some est, is_overdue = False\<rparr>"
proof -
  let ?d = example_worked_dict
  note c = example_worked_lookup
  have m: "map_of example_worked ''n'' = Some ?d"
    by (simp add: example_worked_eq)
  have g: "\<not> (is_status (PStatus PENDING) COMPLETED \<and> \<not> is_status (status u) COMPLETED)"
    by simp
  have cd: "completion_default ?d u = u"
    by (simp add: completion_default_def dict_get_def c)
  define mm where "mm = ?d ++ TaskUpdate_dict_exclude_unset (completion_default ?d u)"
  have l: "mm k_title = Some (PStr ''t'')" "mm k_description = Some PNone"
    "mm k_priority = Some (PPriority MEDIUM)" "mm k_status = Some (PStatus COMPLETED)"
    "mm k_estimated_hours = Some (PFloat est)" "mm k_due_date = Some PNone"
    "mm k_actual_hours = Some (PFloat 0)" "mm k_id = Some (PStr ''n'')"
    "mm k_created_at = Some (PDatetime 100)"
    unfolding mm_def cd using fs by (auto simp: merged_lookup c u)
  have due: "mm k_due_date = None \<or> mm k_due_date = Some PNone
                \<or> (\<exists>x. mm k_due_date = Some (PDatetime x))"
    by (simp add: l)
  note r = apply_business_rules_Inr [OF l(4) l(3) due, of example_clock]
  have d: "derived_actual_hours mm = Some (PFloat est)"
    "derived_due_date example_clock mm = Some PNone"
    "derived_is_overdue example_clock mm = False"
    by (simp_all add: derived_actual_hours_def derived_due_date_def derived_is_overdue_def
        dict_get_def dict_get_default_def l)
  have n: "now_updated example_clock = 102"
    by (simp add: example_clock_def)
  show ?thesis
    unfolding update_task_eq [OF m c(4) g] mm_def [symmetric] r
    using est
    by (simp, intro Task_init_InrI)
      (simp_all add: l d n model_defs)
qed

lemma example_b_lookup:
  "example_b k_title = Some (PStr ''task'')"
  "example_b k_description = Some PNone"
  "example_b k_priority = Some (PPriority URGENT)"
  "example_b k_status = Some (PStatus COMPLETED)"
  "example_b k_estimated_hours = Some (PFloat 5)"
  "example_b k_due_date = Some (PDatetime 50)"
  "example_b k_actual_hours = Some (PFloat 5)"
  "example_b k_id = Some (PStr ''b'')"
  "example_b k_created_at = Some (PDatetime 20)"
  by (simp_all add: example_b_def example_task_def)

lemma example_b_completed_again:
  assumes u: "u = \<lparr>title = PNone, description = PNone, priority = PNone,
             status = PStatus COMPLETED, estimated_hours = PNone, due_date = PNone,
             actual_hours = PFloat 0, fields_set = {k_status, k_actual_hours}\<rparr>"
  shows "fst (update_task example_clock ''b'' u example_db) =
     Inr \<lparr>TaskBase.title = ''task'', description = None, priority = URGENT,
          estimated_hours = Some 5, due_date = Some 50, id = ''b'', status = COMPLETED,
          created_at = 20, updated_at = 102, actual_hours = Some 5, is_overdue = False\<rparr>"
proof -
  let ?d = example_b
  note c = example_b_lookup
  have m: "map_of example_db ''b'' = Some ?d"
    by (simp add: example_db_def)
  have g: "\<not> (is_status (PStatus COMPLETED) COMPLETED \<and> \<not> is_status (status u) COMPLETED)"
    by (simp add: u)
  have cd: "completion_default ?d u = u"
    by (simp add: completion_default_def dict_get_def c)
  define mm where "mm = ?d ++ TaskUpdate_dict_exclude_unset (completion_default ?d u)"
  have l: "mm k_title = Some (PStr ''task'')" "mm k_description = Some PNone"
    "mm k_priority = Some (PPriority URGENT)" "mm k_status = Some (PStatus COMPLETED)"
    "mm k_estimated_hours = Some (PFloat 5)" "mm k_due_date = Some (PDatetime 50)"
    "mm k_actual_hours = Some (PFloat 0)" "mm k_id = Some (PStr ''b'')"
    "mm k_created_at = Some (PDatetime 20)"
    unfolding mm_def cd by (simp_all add: merged_lookup c u)
  have due: "mm k_due_date = None \<or> mm k_due_date = Some PNone
                \<or> (\<exists>x. mm k_due_date = Some (PDatetime x))"
    by (simp add: l)
  note r = apply_business_rules_Inr [OF l(4) l(3) due, of example_clock]
  have d: "derived_actual_hours mm = Some (PFloat 5)"
    "derived_due_date example_clock mm = Some (PDatetime 50)"
    "derived_is_overdue example_clock mm = False"
    by (simp_all add: derived_actual_hours_def derived_due_date_def derived_is_overdue_def
        dict_get_def dict_get_default_def l)
  have n: "now_updated example_clock = 102"
    by (simp add: example_clock_def)
  show ?thesis
    unfolding update_task_eq [OF m c(4) g] mm_def [symmetric] r
    by (simp, intro Task_init_InrI)
      (simp_all add: l d n model_defs)
qed

text \<open>
  Claim C9 as stated has the actual hours overwritten by the stored estimate. A store
  reached by a create with estimated hours 5 and an update to actual hours 3 shows
  otherwise: completing the task with actual hours 0 and estimated hours 7 in the same
  patch returns actual hours 7, the estimate of the patch, not the stored 5.
\<close>

theorem zero_actual_hours_takes_the_patched_estimate:
  "map_of example_worked ''n'' = Some example_worked_dict
   \<and> example_worked_dict k_status = Some (PStatus PENDING)
   \<and> example_worked_dict k_estimated_hours = Some (PFloat 5)
   \<and> example_worked_dict k_actual_hours = Some (PFloat 3)
   \<and> example_zero k_actual_hours = Some (PFloat 0)
   \<and> fst (put_tasks 300 example_clock ''n'' example_zero example_worked) =
       Inr \<lparr>TaskBase.title = ''t'', description = None, priority = MEDIUM,
            estimated_hours = Some 7, due_date = None, id = ''n'', status = COMPLETED,
            created_at = 100, updated_at = 102, actual_hours = Some 7, is_overdue = False\<rparr>"
proof -
  let ?u = "\<lparr>title = PNone, description = PNone, priority = PNone,
             status = PStatus COMPLETED, estimated_hours = PFloat 7, due_date = PNone,
             actual_hours = PFloat 0,
             fields_set = {k_status, k_estimated_hours, k_actual_hours}\<rparr>"
  have i: "TaskUpdate_init 300 example_zero = Inr ?u"
    by (auto simp: TaskUpdate_init_def example_zero_def model_defs due_date_validation_def
        TaskUpdate_fields_def)
  have "fst (update_task example_clock ''n'' ?u example_worked) =
     Inr \<lparr>TaskBase.title = ''t'', description = None, priority = MEDIUM,
          estimated_hours = Some 7, due_date = None, id = ''n'', status = COMPLETED,
          created_at = 100, updated_at = 102, actual_hours = Some 7, is_overdue = False\<rparr>"
    by (rule example_worked_completed [where x = "PFloat 7"]) simp_all
  then show ?thesis
    by (simp add: put_tasks_def i example_worked_eq example_worked_lookup)
      (simp add: example_zero_def)
qed

theorem zero_actual_hours_replaced_by_estimate_witness:
  "TaskUpdate_init 300 example_zero_only =
     Inr \<lparr>title = PNone, description = PNone, priority = PNone,
          status = PStatus COMPLETED, estimated_hours = PNone, due_date = PNone,
          actual_hours = PFloat 0, fields_set = {k_status, k_actual_hours}\<rparr>
   \<and> map_of example_worked ''n'' = Some example_worked_dict
   \<and> example_worked_dict k_status = Some (PStatus PENDING)
   \<and> example_worked_dict k_estimated_hours = Some (PFloat 5)
   \<and> example_worked_dict k_actual_hours = Some (PFloat 3)
   \<and> (\<exists>d'. map_of (snd (put_tasks 300 example_clock ''n'' example_zero_only example_worked))
               ''n'' = Some d'
            \<and> d' k_actual_hours = Some (PFloat 5))
   \<and> map_of example_db ''b'' = Some example_b
   \<and> example_b k_status = Some (PStatus COMPLETED)
   \<and> example_b k_estimated_hours = Some (PFloat 5)
   \<and> (\<exists>d'. map_of (snd (put_tasks 300 example_clock ''b'' example_zero_only example_db))
               ''b'' = Some d'
            \<and> d' k_actual_hours = Some (PFloat 5))"
proof -
  let ?u = "\<lparr>title = PNone, description = PNone, priority = PNone,
             status = PStatus COMPLETED, estimated_hours = PNone, due_date = PNone,
             actual_hours = PFloat 0, fields_set = {k_status, k_actual_hours}\<rparr>"
  let ?r = "fst (update_task example_clock ''n'' ?u example_worked)"
  let ?db' = "snd (update_task example_clock ''n'' ?u example_worked)"
  let ?rb = "fst (update_task example_clock ''b'' ?u example_db)"
  let ?dbb = "snd (update_task example_clock ''b'' ?u example_db)"
  have i: "TaskUpdate_init 300 example_zero_only = Inr ?u"
    by (auto simp: TaskUpdate_init_def example_zero_only_def model_defs
        due_date_validation_def TaskUpdate_fields_def)
  have m: "map_of example_worked ''n'' = Some example_worked_dict"
    by (simp add: example_worked_eq)
  have mb: "map_of example_db ''b'' = Some example_b"
    by (simp add: example_db_def)
  have c: "is_status (status ?u) COMPLETED"
    by simp
  have z: "actual_hours ?u = PFloat 0
            \<or> (example_zero_only k_actual_hours = None
                \<and> dict_get example_worked_dict k_actual_hours = PFloat 0)"
    by simp
  have zb: "actual_hours ?u = PFloat 0
            \<or> (example_zero_only k_actual_hours = None
                \<and> dict_get example_b k_actual_hours = PFloat 0)"
    by simp
  have e: "(if (is_status (dict_get example_worked_dict k_status) COMPLETED
                \<or> truthy (dict_get example_worked_dict k_actual_hours))
               \<and> example_zero_only k_estimated_hours \<noteq> None
             then estimated_hours ?u else dict_get example_worked_dict k_estimated_hours)
           = PFloat 5"
    by (simp add: dict_get_def example_worked_lookup example_zero_only_def)
  have eb: "(if (is_status (dict_get example_b k_status) COMPLETED
                \<or> truthy (dict_get example_b k_actual_hours))
               \<and> example_zero_only k_estimated_hours \<noteq> None
             then estimated_hours ?u else dict_get example_b k_estimated_hours)
           = PFloat 5"
    by (simp add: dict_get_def example_b_lookup example_zero_only_def)
  have e0: "(5::real) \<noteq> 0"
    by simp
  have r: "update_task example_clock ''n'' ?u example_worked = (?r, ?db')"
    by simp
  have rb: "update_task example_clock ''b'' ?u example_db = (?rb, ?dbb)"
    by simp
  have "?r =
     Inr \<lparr>TaskBase.title = ''t'', description = None, priority = MEDIUM,
          estimated_hours = Some 5, due_date = None, id = ''n'', status = COMPLETED,
          created_at = 100, updated_at = 102, actual_hours = Some 5, is_overdue = False\<rparr>"
    by (rule example_worked_completed [where x = PNone]) simp_all
  then have n: "\<not> rejected ?r"
    by (simp add: rejected_def)
  have "?rb =
     Inr \<lparr>TaskBase.title = ''task'', description = None, priority = URGENT,
          estimated_hours = Some 5, due_date = Some 50, id = ''b'', status = COMPLETED,
          created_at = 20, updated_at = 102, actual_hours = Some 5, is_overdue = False\<rparr>"
    by (rule example_b_completed_again) simp
  then have nb: "\<not> rejected ?rb"
    by (simp add: rejected_def)
  from zero_actual_hours_replaced_by_estimate [OF i m c z e e0 r n]
  have 1: "\<exists>d'. map_of ?db' ''n'' = Some d' \<and> d' k_actual_hours = Some (PFloat 5)"
    by blast
  from zero_actual_hours_replaced_by_estimate [OF i mb c zb eb e0 rb nb]
  have 2: "\<exists>d'. map_of ?dbb ''b'' = Some d' \<and> d' k_actual_hours = Some (PFloat 5)"
    by blast
  from 1 2 show ?thesis
    using i by (simp add: put_tasks_def m mb example_worked_lookup example_b_lookup)
qed

subsection \<open>The overdue flag on every path\<close>


subsection \<open>Stored datetimes are naive\<close>

text \<open>No operation puts a timezone-aware datetime into the store: a request model passes
  on no aware value, and the rule engine writes values of \<^verbatim>\<open>datetime.now()\<close> only.\<close>

lemma naive_dictI: "(\<And>k v. d k = Some v \<Longrightarrow> \<not> is_aware v) \<Longrightarrow> naive_dict d"
  by (auto simp: naive_dict_def dict_get_def split: option.splits)

lemma naive_dictD: "naive_dict d \<Longrightarrow> d k = Some v \<Longrightarrow> \<not> is_aware v"
  by (auto simp: naive_dict_def dict_get_def split: option.splits dest: spec [of _ k])

lemma naive_dict_upd: "naive_dict d \<Longrightarrow> \<not> is_aware v \<Longrightarrow> naive_dict (d(k \<mapsto> v))"
  by (auto intro!: naive_dictI dest: naive_dictD split: if_splits)

lemma naive_db_setitem:
  "naive_db db \<Longrightarrow> naive_dict v \<Longrightarrow> naive_db (db_setitem db k v)"
  by (induction db) (auto simp: naive_db_def db_values_def)

lemma naive_db_lookup: "naive_db db \<Longrightarrow> map_of db k = Some d \<Longrightarrow> naive_dict d"
  by (auto simp: naive_db_def db_values_def list_all_iff dest!: map_of_SomeD)

lemma opt_val_naive:
  "\<not> is_aware (opt_val PStr s)" "\<not> is_aware (opt_val PFloat r)"
  "\<not> is_aware (opt_val PDatetime x)" "\<not> is_aware (opt_val PPriority p)"
  "\<not> is_aware (opt_val PStatus st)"
  by (simp_all add: opt_val_def split: option.splits)

lemma naive_created_dict: "naive_dict (created_dict task_id now_created clk task)"
  by (rule naive_dictI)
    (auto simp: created_dict_def opt_val_naive split: if_splits)

lemma naive_post_tasks:
  assumes "naive_db db"
  shows "naive_db (snd (post_tasks now task_id now_created now_updated' clk payload db))"
  using assms
  by (auto simp: post_tasks_def create_task_stored naive_db_setitem naive_created_dict
      split: sum.splits)

lemma naive_apply_business_rules:
  assumes "naive_dict d" and "apply_business_rules clk d = Inr d'"
  shows "naive_dict d'"
proof (rule naive_dictI)
  fix k v assume v: "d' k = Some v"
  note n = naive_dictD [OF assms(1)]
  have a: "\<not> is_aware (dict_get_default d k_estimated_hours (PFloat 1))"
    using n [of k_estimated_hours] by (auto simp: dict_get_default_def split: option.splits)
  from v show "\<not> is_aware v"
    unfolding apply_business_rules_InrD(1) [OF assms(2)]
    using n [of k] a
    by (auto simp: derived_actual_hours_def derived_due_date_def split: if_splits)
qed

lemma naive_TaskUpdate:
  assumes "TaskUpdate_init now payload = Inr u"
  shows "\<not> is_aware (title u)" "\<not> is_aware (description u)" "\<not> is_aware (priority u)"
    "\<not> is_aware (status u)" "\<not> is_aware (estimated_hours u)" "\<not> is_aware (due_date u)"
    "\<not> is_aware (actual_hours u)"
  using assms by (auto elim!: TaskUpdate_init_InrE simp: opt_val_naive)

lemma naive_merged:
  assumes d: "naive_dict d"
    and u: "\<not> is_aware (title u)" "\<not> is_aware (description u)" "\<not> is_aware (priority u)"
      "\<not> is_aware (status u)" "\<not> is_aware (estimated_hours u)" "\<not> is_aware (due_date u)"
      "\<not> is_aware (actual_hours u)"
  shows "naive_dict (d ++ TaskUpdate_dict_exclude_unset u)"
proof (rule naive_dictI)
  fix k v assume v: "(d ++ TaskUpdate_dict_exclude_unset u) k = Some v"
  note n = naive_dictD [OF d, of k]
  from v show "\<not> is_aware v"
    using n u
    by (cases k)
      (auto simp: map_add_def TaskUpdate_dict_exclude_unset_def restrict_map_def
        split: option.splits if_splits)
qed

lemma naive_update_task:
  assumes db: "naive_db db"
    and u: "\<not> is_aware (title u)" "\<not> is_aware (description u)" "\<not> is_aware (priority u)"
      "\<not> is_aware (status u)" "\<not> is_aware (estimated_hours u)" "\<not> is_aware (due_date u)"
      "\<not> is_aware (actual_hours u)"
  shows "naive_db (snd (update_task clk task_id u db))"
proof (cases "map_of db task_id")
  case None
  then show ?thesis using db by (simp add: update_task_def)
next
  case (Some d)
  with db have d: "naive_dict d"
    by (auto intro: naive_db_lookup)
  have e: "\<not> is_aware (dict_get_default d k_estimated_hours (PFloat 1))"
    using naive_dictD [OF d, of k_estimated_hours]
    by (auto simp: dict_get_default_def split: option.splits)
  let ?u = "completion_default d u"
  have "naive_dict (d ++ TaskUpdate_dict_exclude_unset ?u)"
    using d by (rule naive_merged) (simp_all add: completion_default_def u e)
  then have r: "naive_dict d'"
    if "apply_business_rules clk (d ++ TaskUpdate_dict_exclude_unset ?u) = Inr d'" for d'
    using that by (rule naive_apply_business_rules)
  show ?thesis
  proof (cases "d k_status")
    case None
    with Some db show ?thesis
      by (simp add: update_task_def dict_index_def)
  next
    case s: (Some s)
    show ?thesis
    proof (cases "is_status s COMPLETED \<and> \<not> is_status (status u) COMPLETED")
      case True
      with Some s db show ?thesis
        by (simp add: update_task_def dict_index_def)
    next
      case False
      show ?thesis
        unfolding update_task_eq [OF Some s False]
        using db r by (auto simp: naive_db_setitem split: sum.splits)
    qed
  qed
qed

lemma naive_put_tasks:
  assumes "naive_db db"
  shows "naive_db (snd (put_tasks now clk task_id payload db))"
proof (cases "TaskUpdate_init now payload")
  case (Inl e)
  with assms show ?thesis by (simp add: put_tasks_def)
next
  case (Inr u)
  from assms naive_TaskUpdate [OF Inr]
  have "naive_db (snd (update_task clk task_id u db))"
    by (rule naive_update_task)
  with Inr show ?thesis by (simp add: put_tasks_def)
qed

lemma naive_read_all_step:
  assumes "naive_dict d"
  shows "naive_dict (snd (read_all_step now q_status q_priority overdue_only d))"
proof -
  have "snd (read_all_step now q_status q_priority overdue_only d) = d
        \<or> (\<exists>b. snd (read_all_step now q_status q_priority overdue_only d)
                  = d(k_is_overdue \<mapsto> PBool b))"
    by (auto simp: read_all_step_def Let_def split: sum.splits option.splits bool.splits)
  with assms show ?thesis
    by (auto simp: naive_dict_upd)
qed

lemma naive_read_all_loop:
  assumes "naive_db db"
  shows "naive_db (snd (read_all_loop now_at i q_status q_priority overdue_only db))"
  using assms
proof (induction db arbitrary: i)
  case Nil
  then show ?case by simp
next
  case (Cons kd db)
  obtain k d where kd: "kd = (k, d)" by (cases kd)
  from Cons.prems have d: "naive_dict d" and rest: "naive_db db"
    by (simp_all add: kd naive_db_def db_values_def)
  note S = naive_read_all_step [OF d, of "now_at i" q_status q_priority overdue_only]
  note L = Cons.IH [OF rest, of "Suc i"]
  show ?case
    using S L rest
    by (auto simp: kd naive_db_def db_values_def split: prod.splits sum.splits)
qed

lemma naive_read_all_tasks:
  assumes "naive_db db"
  shows "naive_db (snd (read_all_tasks now_at q_status q_priority overdue_only limit db))"
  using assms naive_read_all_loop [OF assms, of now_at 0 q_status q_priority overdue_only]
  by (auto simp: read_all_tasks_def split: prod.splits sum.splits)

lemma naive_delete:
  assumes "naive_db db"
  shows "naive_db (snd (delete_task task_id db))"
    and "naive_db (snd (delete_all_tasks force db))"
    and "naive_db (snd (read_task now task_id db))"
  using assms
  by (auto simp: delete_task_def delete_all_tasks_def read_task_def db_delitem_def naive_db_def
      db_values_def list_all_iff split: option.splits sum.splits)

lemma naive_db_empty: "naive_db []"
  by (simp add: naive_db_def db_values_def)

subsection \<open>Reads on an arbitrary store\<close>






subsection \<open>A store with a record that does not validate\<close>





subsection \<open>Listing\<close>





subsection \<open>Reads and the stored flag\<close>




end
